theory Spec2Isabelle
  imports Complex_Main
begin

section \<open>Floating-point pixels\<close>

text \<open>
  The rasters of \<^verbatim>\<open>emissivity.py\<close> are numpy arrays of floats. A pixel is modelled as
  an IEEE value without rounding: not-a-number, the two infinities, or a finite value
  taken as a real number. Rounding and the sign of zero are abstracted; the
  propagation of NaN and of the infinities through comparison and arithmetic, on which
  the masks of the program depend, is kept.
\<close>

datatype fl = NaN | NInf | PInf | Fin real

fun isnan :: "fl \<Rightarrow> bool" where
  "isnan NaN = True"
| "isnan _ = False"

fun isfinite :: "fl \<Rightarrow> bool" where
  "isfinite (Fin _) = True"
| "isfinite _ = False"

text \<open>Comparisons: every comparison with NaN is false.\<close>

fun flt :: "fl \<Rightarrow> fl \<Rightarrow> bool" where
  "flt NaN _ = False"
| "flt _ NaN = False"
| "flt (Fin a) (Fin b) = (a < b)"
| "flt _ NInf = False"
| "flt NInf _ = True"
| "flt PInf _ = False"
| "flt (Fin a) PInf = True"

fun fle :: "fl \<Rightarrow> fl \<Rightarrow> bool" where
  "fle NaN _ = False"
| "fle _ NaN = False"
| "fle (Fin a) (Fin b) = (a \<le> b)"
| "fle NInf _ = True"
| "fle _ PInf = True"
| "fle _ _ = False"

definition fgt :: "fl \<Rightarrow> fl \<Rightarrow> bool" where
  "fgt x y = flt y x"

definition fge :: "fl \<Rightarrow> fl \<Rightarrow> bool" where
  "fge x y = fle y x"

text \<open>Arithmetic: NaN is absorbing, and \<open>inf - inf\<close> and \<open>0 * inf\<close> are NaN.\<close>

fun fneg :: "fl \<Rightarrow> fl" where
  "fneg NaN = NaN"
| "fneg NInf = PInf"
| "fneg PInf = NInf"
| "fneg (Fin a) = Fin (- a)"

fun fadd :: "fl \<Rightarrow> fl \<Rightarrow> fl" where
  "fadd NaN _ = NaN"
| "fadd _ NaN = NaN"
| "fadd (Fin a) (Fin b) = Fin (a + b)"
| "fadd PInf NInf = NaN"
| "fadd NInf PInf = NaN"
| "fadd PInf _ = PInf"
| "fadd NInf _ = NInf"
| "fadd (Fin a) y = y"

definition fsub :: "fl \<Rightarrow> fl \<Rightarrow> fl" where
  "fsub x y = fadd x (fneg y)"

fun finf_signed :: "fl \<Rightarrow> real \<Rightarrow> fl" where
  "finf_signed i b = (if b = 0 then NaN else if 0 < b then i else fneg i)"

fun fmul :: "fl \<Rightarrow> fl \<Rightarrow> fl" where
  "fmul NaN _ = NaN"
| "fmul _ NaN = NaN"
| "fmul (Fin a) (Fin b) = Fin (a * b)"
| "fmul (Fin a) y = finf_signed y a"
| "fmul x (Fin b) = finf_signed x b"
| "fmul PInf y = y"
| "fmul NInf y = fneg y"

text \<open>
  Division. The program divides by the Python scalar \<open>0.5 - 0.2\<close> only; division by
  zero (numpy gives an infinity or NaN, by the lost sign of zero) is written out with
  the divisor taken as \<open>+0\<close>.
\<close>

fun fdiv :: "fl \<Rightarrow> fl \<Rightarrow> fl" where
  "fdiv NaN _ = NaN"
| "fdiv _ NaN = NaN"
| "fdiv (Fin a) (Fin b) =
     (if b = 0 then (if a = 0 then NaN else if 0 < a then PInf else NInf)
      else Fin (a / b))"
| "fdiv (Fin a) _ = Fin 0"
| "fdiv x (Fin b) = (if 0 \<le> b then x else fneg x)"
| "fdiv _ _ = NaN"

text \<open>\<^verbatim>\<open>x ** 2\<close> on an array squares every element.\<close>

definition fpow2 :: "fl \<Rightarrow> fl" where
  "fpow2 x = fmul x x"

section \<open>Arrays\<close>

text \<open>
  A numpy array is its shape and its elements in row-major order. A well-formed array
  holds as many elements as its shape says.
\<close>

record 'a ndarray =
  shape :: "nat list"
  data :: "'a list"

definition wf_array :: "'a ndarray \<Rightarrow> bool" where
  "wf_array a = (length (data a) = prod_list (shape a))"

definition zeros_like :: "fl ndarray \<Rightarrow> fl ndarray" where
  "zeros_like a = \<lparr>shape = shape a, data = replicate (length (data a)) (Fin 0)\<rparr>"

definition np_isnan :: "fl ndarray \<Rightarrow> bool ndarray" where
  "np_isnan a = \<lparr>shape = shape a, data = map isnan (data a)\<rparr>"

text \<open>Comparison of an array with a Python scalar, and \<^verbatim>\<open>&\<close> of two masks.\<close>

definition arr_cmp :: "(fl \<Rightarrow> fl \<Rightarrow> bool) \<Rightarrow> fl ndarray \<Rightarrow> real \<Rightarrow> bool ndarray" where
  "arr_cmp c a s = \<lparr>shape = shape a, data = map (\<lambda>x. c x (Fin s)) (data a)\<rparr>"

definition arr_and :: "bool ndarray \<Rightarrow> bool ndarray \<Rightarrow> bool ndarray" where
  "arr_and m1 m2 = \<lparr>shape = shape m1, data = map2 (\<and>) (data m1) (data m2)\<rparr>"

text \<open>Elementwise arithmetic on one array, as \<^verbatim>\<open>0.973 - 0.047 * a\<close> is.\<close>

definition arr_map :: "(fl \<Rightarrow> fl) \<Rightarrow> fl ndarray \<Rightarrow> fl ndarray" where
  "arr_map f a = \<lparr>shape = shape a, data = map f (data a)\<rparr>"

text \<open>
  \<^verbatim>\<open>np.where(mask)\<close> on a two-dimensional mask: the (row, column) coordinates of the
  true elements, in row-major order. The number of columns is the second entry of the
  shape.
\<close>

definition ncols :: "'a ndarray \<Rightarrow> nat" where
  "ncols a = shape a ! 1"

definition np_where :: "bool ndarray \<Rightarrow> (nat \<times> nat) list" where
  "np_where m =
     map (\<lambda>k. (k div ncols m, k mod ncols m))
       (filter (\<lambda>k. data m ! k) [0..<length (data m)])"

text \<open>
  Indexing with coordinates. \<^verbatim>\<open>a[idx]\<close> reads the elements at the coordinates;
  \<^verbatim>\<open>a[idx] = s\<close> writes a scalar to each of them; \<^verbatim>\<open>a[idx] = vs\<close> writes the
  values of \<open>vs\<close>, one for each coordinate, in order. The program only ever indexes an
  array with coordinates taken from a mask of that array's own shape, so numpy's
  IndexError for a coordinate out of bounds has no branch here.
\<close>

definition flat_index :: "'a ndarray \<Rightarrow> nat \<times> nat \<Rightarrow> nat" where
  "flat_index a p = fst p * ncols a + snd p"

definition getitem :: "'a ndarray \<Rightarrow> (nat \<times> nat) list \<Rightarrow> 'a list" where
  "getitem a idx = map (\<lambda>p. data a ! flat_index a p) idx"

fun scatter :: "'a list \<Rightarrow> (nat \<times> 'a) list \<Rightarrow> 'a list" where
  "scatter xs [] = xs"
| "scatter xs ((i, v) # ps) = scatter (xs[i := v]) ps"

definition setitem :: "'a ndarray \<Rightarrow> (nat \<times> nat) list \<Rightarrow> 'a list \<Rightarrow> 'a ndarray" where
  "setitem a idx vs = a\<lparr>data := scatter (data a) (zip (map (flat_index a) idx) vs)\<rparr>"

definition setitem_scalar :: "'a ndarray \<Rightarrow> (nat \<times> nat) list \<Rightarrow> 'a \<Rightarrow> 'a ndarray" where
  "setitem_scalar a idx s = setitem a idx (replicate (length idx) s)"

text \<open>\<^verbatim>\<open>a[mask] = s\<close> with a boolean mask of the array's shape.\<close>

definition setitem_mask :: "'a ndarray \<Rightarrow> bool ndarray \<Rightarrow> 'a \<Rightarrow> 'a ndarray" where
  "setitem_mask a m s = a\<lparr>data := map2 (\<lambda>x b. if b then s else x) (data a) (data m)\<rparr>"

section \<open>Exceptions\<close>

text \<open>
  \<^verbatim>\<open>assert cond, ValueError(msg)\<close> raises an AssertionError whose argument is the
  ValueError; \<^verbatim>\<open>raise NotImplementedError(msg)\<close> raises that exception.
\<close>

datatype exn = ValueError string | NotImplementedError string | AssertionError exn

text \<open>\<^verbatim>\<open>str\<close> of a natural number and of a tuple of them, for the formatted message.\<close>

fun str_nat :: "nat \<Rightarrow> string" where
  "str_nat n =
     (if n < 10 then [char_of (48 + n)]
      else str_nat (n div 10) @ [char_of (48 + n mod 10)])"

fun join_comma :: "string list \<Rightarrow> string" where
  "join_comma [] = []"
| "join_comma [s] = s"
| "join_comma (s # ss) = s @ '', '' @ join_comma ss"

fun str_tuple :: "nat list \<Rightarrow> string" where
  "str_tuple [n] = ''('' @ str_nat n @ '',)''"
| "str_tuple ns = ''('' @ join_comma (map str_nat ns) @ '')''"

section \<open>The support functions\<close>

text \<open>
  Modelled from the spec: \<^verbatim>\<open>emissivity.utils\<close>, which holds
  \<^verbatim>\<open>fractional_vegetation_cover\<close> and \<^verbatim>\<open>cavity_effect\<close>, is not among the sources.
  The spec makes the first a same-shaped raster that is a function of NDVI, and the
  second a same-shaped raster that is a function of the fractional cover alone. Each is
  taken as an arbitrary function on pixels, the parameters \<open>fvc\<close> and \<open>cav\<close> of the
  models below, applied to every element.
\<close>

definition fractional_vegetation_cover :: "(fl \<Rightarrow> fl) \<Rightarrow> fl ndarray \<Rightarrow> fl ndarray" where
  "fractional_vegetation_cover fvc a = arr_map fvc a"

definition cavity_effect :: "(fl \<Rightarrow> fl) \<Rightarrow> fl ndarray \<Rightarrow> fl ndarray" where
  "cavity_effect cav f = arr_map cav f"

section \<open>The emissivity models\<close>

subsection \<open>The base class\<close>

text \<open>
  The attributes of an \<^verbatim>\<open>EmissivityParent\<close> object, and the two that each of its
  subclasses adds in its constructor.
\<close>

record emissivity_parent =
  ndvi :: "fl ndarray"
  red_band :: "fl ndarray option"
  emissivity :: "fl ndarray"
  nan_mask :: "bool ndarray"

record emissivity_model = emissivity_parent +
  emissivity_soil :: real
  emissivity_veg :: real

type_synonym 'o outcome = "'o \<times> (exn + fl ndarray)"

text \<open>
  A method that can raise returns the object as the method left it together with
  either the exception or the returned array.
\<close>

definition EmissivityParent_init :: "fl ndarray \<Rightarrow> fl ndarray option \<Rightarrow> exn + emissivity_parent" where
  "EmissivityParent_init nd rb =
     (if length (shape nd) \<noteq> 2
      then Inl (AssertionError (ValueError
             (''Input must be single band image with two dimensions only. '' @ str_tuple (shape nd))))
      else Inr \<lparr>ndvi = nd, red_band = rb, emissivity = zeros_like nd, nan_mask = np_isnan nd\<rparr>)"

datatype landcover = Baresoil | Vegetation | Mixed

definition get_land_surface_mask :: "'a emissivity_parent_scheme \<Rightarrow> landcover \<Rightarrow> bool ndarray" where
  "get_land_surface_mask self =
     (let mask_baresoil = arr_and (arr_cmp fge (ndvi self) (- 1)) (arr_cmp flt (ndvi self) 0.2);
          mask_vegetation = arr_and (arr_cmp fgt (ndvi self) 0.5) (arr_cmp fle (ndvi self) 1);
          mask_mixed = arr_and (arr_cmp fge (ndvi self) 0.2) (arr_cmp fle (ndvi self) 0.5)
      in (\<lambda>key. case key of
            Baresoil \<Rightarrow> mask_baresoil
          | Vegetation \<Rightarrow> mask_vegetation
          | Mixed \<Rightarrow> mask_mixed))"

definition get_landcover_mask_indices :: "'a emissivity_parent_scheme \<Rightarrow> landcover \<Rightarrow> (nat \<times> nat) list" where
  "get_landcover_mask_indices self =
     (let masks = get_land_surface_mask self;
          baresoil = np_where (masks Baresoil);
          vegetation = np_where (masks Vegetation);
          mixed = np_where (masks Mixed)
      in (\<lambda>key. case key of
            Baresoil \<Rightarrow> baresoil
          | Vegetation \<Rightarrow> vegetation
          | Mixed \<Rightarrow> mixed))"

definition compute_fvc :: "(fl \<Rightarrow> fl) \<Rightarrow> 'a emissivity_parent_scheme \<Rightarrow> fl ndarray" where
  "compute_fvc fvc self = fractional_vegetation_cover fvc (ndvi self)"

definition compute_cavity_effect :: "(fl \<Rightarrow> fl) \<Rightarrow> (fl \<Rightarrow> fl) \<Rightarrow> 'a emissivity_parent_scheme \<Rightarrow> fl ndarray" where
  "compute_cavity_effect fvc cav self =
     (let fractional_veg_cover = compute_fvc fvc self
      in cavity_effect cav fractional_veg_cover)"

definition EmissivityParent_compute_emissivity :: "'a emissivity_parent_scheme \<Rightarrow> 'a emissivity_parent_scheme outcome" where
  "EmissivityParent_compute_emissivity self =
     (self, Inl (NotImplementedError ''No emissivity computation logic implemented yet''))"

text \<open>
  \<^verbatim>\<open>__call__\<close>, with the \<^verbatim>\<open>_compute_emissivity\<close> of the object's class as its first
  argument. The array that \<^verbatim>\<open>_compute_emissivity\<close> returns is the object's own
  \<^verbatim>\<open>emissivity\<close> array in every class, so the overlay of NaN shows in both.
\<close>

definition EmissivityParent_call ::
    "('a emissivity_parent_scheme \<Rightarrow> 'a emissivity_parent_scheme outcome) \<Rightarrow>
     'a emissivity_parent_scheme \<Rightarrow> 'a emissivity_parent_scheme outcome" where
  "EmissivityParent_call compute_emissivity self =
     (if (case red_band self of None \<Rightarrow> False | Some rb \<Rightarrow> shape (ndvi self) \<noteq> shape rb)
      then (self, Inl (AssertionError (ValueError
              ''Input images (NDVI and Red band) must be of equal dimension'')))
      else (case compute_emissivity self of
              (self', Inl e) \<Rightarrow> (self', Inl e)
            | (self', Inr emm) \<Rightarrow>
                (let emm' = setitem_mask emm (nan_mask self') NaN
                 in (self'\<lparr>emissivity := emm'\<rparr>, Inr emm'))))"

subsection \<open>The mono-window model\<close>

definition ComputeMonoWindowEmissivity_init :: "fl ndarray \<Rightarrow> fl ndarray option \<Rightarrow> exn + emissivity_model" where
  "ComputeMonoWindowEmissivity_init nd rb =
     (case EmissivityParent_init nd rb of
        Inl e \<Rightarrow> Inl e
      | Inr p \<Rightarrow> Inr (emissivity_parent.extend p
                 (emissivity_model.fields 0.97 0.99)))"

definition ComputeMonoWindowEmissivity_compute_emissivity :: "emissivity_model \<Rightarrow> emissivity_model outcome" where
  "ComputeMonoWindowEmissivity_compute_emissivity self =
     (let landcover_mask_indices = get_landcover_mask_indices self;
          e1 = setitem_scalar (emissivity self) (landcover_mask_indices Baresoil)
                 (Fin (emissivity_soil self));
          e2 = setitem_scalar e1 (landcover_mask_indices Vegetation)
                 (Fin (emissivity_veg self));
          e3 = setitem e2 (landcover_mask_indices Mixed)
                 (map (\<lambda>x. fadd (fmul (Fin 0.004)
                                    (fpow2 (fdiv (fsub x (Fin 0.2)) (Fin (0.5 - 0.2)))))
                              (Fin 0.986))
                    (getitem (ndvi self) (landcover_mask_indices Mixed)));
          e4 = setitem_mask e3 (nan_mask self) NaN
      in (self\<lparr>emissivity := e4\<rparr>, Inr e4))"

definition ComputeMonoWindowEmissivity_run :: "fl ndarray \<Rightarrow> fl ndarray option \<Rightarrow> exn + fl ndarray" where
  "ComputeMonoWindowEmissivity_run nd rb =
     (case ComputeMonoWindowEmissivity_init nd rb of
        Inl e \<Rightarrow> Inl e
      | Inr self \<Rightarrow> snd (EmissivityParent_call ComputeMonoWindowEmissivity_compute_emissivity self))"

subsection \<open>The NBEM model\<close>

definition ComputeEmissivityNBEM_init :: "fl ndarray \<Rightarrow> fl ndarray option \<Rightarrow> exn + emissivity_model" where
  "ComputeEmissivityNBEM_init nd rb =
     (case EmissivityParent_init nd rb of
        Inl e \<Rightarrow> Inl e
      | Inr p \<Rightarrow> Inr (emissivity_parent.extend p
                 (emissivity_model.fields 0.9668 0.9863)))"

definition ComputeEmissivityNBEM_compute_emissivity ::
    "(fl \<Rightarrow> fl) \<Rightarrow> (fl \<Rightarrow> fl) \<Rightarrow> emissivity_model \<Rightarrow> emissivity_model outcome" where
  "ComputeEmissivityNBEM_compute_emissivity fvc cav self =
     (case red_band self of
        None \<Rightarrow> (self, Inl (AssertionError (ValueError
                  ''Red band cannot be None for this emissivity computation method'')))
      | Some rb \<Rightarrow>
         (let landcover_mask_indices = get_landcover_mask_indices self;
              fractional_veg_cover = compute_fvc fvc self;
              cavity_effect_10 = compute_cavity_effect fvc cav self;
              e1 = setitem (emissivity self) (landcover_mask_indices Baresoil)
                     (map (\<lambda>r. fsub (Fin 0.973) (fmul (Fin 0.047) r))
                        (getitem rb (landcover_mask_indices Baresoil)));
              e2 = setitem e1 (landcover_mask_indices Mixed)
                     (map2 fadd
                        (map2 fadd
                           (map (\<lambda>f. fmul (Fin (emissivity_veg self)) f)
                              (getitem fractional_veg_cover (landcover_mask_indices Mixed)))
                           (map (\<lambda>f. fmul (Fin (emissivity_soil self)) (fsub (Fin 1) f))
                              (getitem fractional_veg_cover (landcover_mask_indices Mixed))))
                        (getitem cavity_effect_10 (landcover_mask_indices Mixed)));
              e3 = setitem e2 (landcover_mask_indices Vegetation)
                     (map (\<lambda>c. fadd (Fin (emissivity_veg self)) c)
                        (getitem cavity_effect_10 (landcover_mask_indices Vegetation)));
              e4 = setitem_mask e3 (nan_mask self) NaN
          in (self\<lparr>emissivity := e4\<rparr>, Inr e4)))"

definition ComputeEmissivityNBEM_run ::
    "(fl \<Rightarrow> fl) \<Rightarrow> (fl \<Rightarrow> fl) \<Rightarrow> fl ndarray \<Rightarrow> fl ndarray option \<Rightarrow> exn + fl ndarray" where
  "ComputeEmissivityNBEM_run fvc cav nd rb =
     (case ComputeEmissivityNBEM_init nd rb of
        Inl e \<Rightarrow> Inl e
      | Inr self \<Rightarrow> snd (EmissivityParent_call (ComputeEmissivityNBEM_compute_emissivity fvc cav) self))"

subsection \<open>The Gopinadh model\<close>

definition arr_map2 :: "(fl \<Rightarrow> fl \<Rightarrow> fl) \<Rightarrow> fl ndarray \<Rightarrow> fl ndarray \<Rightarrow> fl ndarray" where
  "arr_map2 f a b = \<lparr>shape = shape a, data = map2 f (data a) (data b)\<rparr>"

definition ComputeEmissivityGopinadh_init :: "fl ndarray \<Rightarrow> fl ndarray option \<Rightarrow> exn + emissivity_model" where
  "ComputeEmissivityGopinadh_init nd rb =
     (case EmissivityParent_init nd rb of
        Inl e \<Rightarrow> Inl e
      | Inr p \<Rightarrow> Inr (emissivity_parent.extend p
                 (emissivity_model.fields 0.9668 0.9747)))"

text \<open>
  Here \<^verbatim>\<open>self.emissivity\<close> is bound to the new array that the arithmetic makes; the
  two operands of \<^verbatim>\<open>+\<close> come from the same array and so have one shape.
\<close>

definition ComputeEmissivityGopinadh_compute_emissivity ::
    "(fl \<Rightarrow> fl) \<Rightarrow> emissivity_model \<Rightarrow> emissivity_model outcome" where
  "ComputeEmissivityGopinadh_compute_emissivity fvc self =
     (let fractional_veg_cover = compute_fvc fvc self;
          e1 = arr_map2 fadd
                 (arr_map (\<lambda>f. fmul (Fin (emissivity_soil self)) (fsub (Fin 1) f))
                    fractional_veg_cover)
                 (arr_map (\<lambda>f. fmul (Fin (emissivity_veg self)) f) fractional_veg_cover);
          e2 = setitem_mask e1 (nan_mask self) NaN
      in (self\<lparr>emissivity := e2\<rparr>, Inr e2))"

definition ComputeEmissivityGopinadh_run ::
    "(fl \<Rightarrow> fl) \<Rightarrow> fl ndarray \<Rightarrow> fl ndarray option \<Rightarrow> exn + fl ndarray" where
  "ComputeEmissivityGopinadh_run fvc nd rb =
     (case ComputeEmissivityGopinadh_init nd rb of
        Inl e \<Rightarrow> Inl e
      | Inr self \<Rightarrow> snd (EmissivityParent_call (ComputeEmissivityGopinadh_compute_emissivity fvc) self))"

subsection \<open>The dispatcher\<close>

definition EMISSIVITY_METHODS :: "string list" where
  "EMISSIVITY_METHODS = [''avdan'', ''xiaolei'', ''gopinadh'']"

datatype cls = ComputeMonoWindowEmissivity | ComputeEmissivityNBEM | ComputeEmissivityGopinadh

text \<open>
  The message of the last branch is an ordinary string, not an f-string: the braces
  and the name between them are part of the text.
\<close>

definition get_method :: "string \<Rightarrow> exn + cls" where
  "get_method method =
     (if method = ''avdan'' then Inr ComputeMonoWindowEmissivity
      else if method = ''xiaolei'' then Inr ComputeEmissivityNBEM
      else if method = ''gopinadh'' then Inr ComputeEmissivityGopinadh
      else Inl (NotImplementedError
        ''Requested method not implemented. Choose among available methods: {EMMISIVITY_METHODS}''))"

text \<open>\<^verbatim>\<open>compute_method(ndvi, red_band)()\<close>: construct an object of the class and call it.\<close>

definition construct_and_call ::
    "(fl \<Rightarrow> fl) \<Rightarrow> (fl \<Rightarrow> fl) \<Rightarrow> cls \<Rightarrow> fl ndarray \<Rightarrow> fl ndarray option \<Rightarrow> exn + fl ndarray" where
  "construct_and_call fvc cav compute_method nd rb =
     (case compute_method of
        ComputeMonoWindowEmissivity \<Rightarrow> ComputeMonoWindowEmissivity_run nd rb
      | ComputeEmissivityNBEM \<Rightarrow> ComputeEmissivityNBEM_run fvc cav nd rb
      | ComputeEmissivityGopinadh \<Rightarrow> ComputeEmissivityGopinadh_run fvc nd rb)"

text \<open>
  \<^verbatim>\<open>Emissivity(ndvi, red_band)(method)\<close>; the constructor only stores its two
  arguments.
\<close>

definition Emissivity_call ::
    "(fl \<Rightarrow> fl) \<Rightarrow> (fl \<Rightarrow> fl) \<Rightarrow> fl ndarray \<Rightarrow> fl ndarray option \<Rightarrow> string \<Rightarrow> exn + fl ndarray" where
  "Emissivity_call fvc cav nd rb method =
     (if method \<notin> set EMISSIVITY_METHODS
      then Inl (AssertionError (ValueError ''Method not implemented''))
      else (case get_method method of
              Inl e \<Rightarrow> Inl e
            | Inr compute_method \<Rightarrow> construct_and_call fvc cav compute_method nd rb))"

section \<open>What each model gives one pixel\<close>

text \<open>
  The value that \<^verbatim>\<open>ComputeMonoWindowEmissivity\<close> leaves in a pixel, read off the masks
  and the writes of its \<^verbatim>\<open>_compute_emissivity\<close>: the overlay of NaN comes last, and of
  the three writes the latest wins. Lemma \<open>mono_run_eq\<close> proves that the model computes
  exactly this for every pixel.
\<close>

definition mono_pixel :: "fl \<Rightarrow> fl" where
  "mono_pixel x =
     (if isnan x then NaN
      else if fge x (Fin 0.2) \<and> fle x (Fin 0.5)
        then fadd (fmul (Fin 0.004) (fpow2 (fdiv (fsub x (Fin 0.2)) (Fin (0.5 - 0.2)))))
               (Fin 0.986)
      else if fgt x (Fin 0.5) \<and> fle x (Fin 1) then Fin 0.99
      else if fge x (Fin (- 1)) \<and> flt x (Fin 0.2) then Fin 0.97
      else Fin 0)"

text \<open>
  The same for \<^verbatim>\<open>ComputeEmissivityNBEM\<close>, whose writes come in the order bare soil,
  mixed, vegetation, and read the red band at the pixel; lemma \<open>nbem_run_eq\<close>.
\<close>

definition nbem_pixel :: "(fl \<Rightarrow> fl) \<Rightarrow> (fl \<Rightarrow> fl) \<Rightarrow> fl \<Rightarrow> fl \<Rightarrow> fl" where
  "nbem_pixel fvc cav x r =
     (if isnan x then NaN
      else if fgt x (Fin 0.5) \<and> fle x (Fin 1) then fadd (Fin 0.9863) (cav (fvc x))
      else if fge x (Fin 0.2) \<and> fle x (Fin 0.5)
        then fadd (fadd (fmul (Fin 0.9863) (fvc x))
                     (fmul (Fin 0.9668) (fsub (Fin 1) (fvc x))))
               (cav (fvc x))
      else if fge x (Fin (- 1)) \<and> flt x (Fin 0.2)
        then fsub (Fin 0.973) (fmul (Fin 0.047) r)
      else Fin 0)"

text \<open>And for \<^verbatim>\<open>ComputeEmissivityGopinadh\<close>, which has no classes; lemma \<open>gopinadh_run_eq\<close>.\<close>

definition gopinadh_pixel :: "(fl \<Rightarrow> fl) \<Rightarrow> fl \<Rightarrow> fl" where
  "gopinadh_pixel fvc x =
     (if isnan x then NaN
      else fadd (fmul (Fin 0.9668) (fsub (Fin 1) (fvc x))) (fmul (Fin 0.9747) (fvc x)))"

section \<open>Indexing and assignment\<close>

lemma length_scatter [simp]: "length (scatter xs ps) = length xs"
  by (induction xs ps rule: scatter.induct) simp_all

lemma scatter_map_nth:
  "k < length xs \<Longrightarrow>
   scatter xs (map (\<lambda>i. (i, g i)) ks) ! k = (if k \<in> set ks then g k else xs ! k)"
proof (induction ks arbitrary: xs)
  case Nil
  then show ?case by simp
next
  case (Cons i ks)
  then show ?case by (auto simp: nth_list_update)
qed

lemma flat_np_where:
  "ncols a = ncols m \<Longrightarrow>
   map (flat_index a) (np_where m) = filter (\<lambda>k. data m ! k) [0..<length (data m)]"
  by (simp add: np_where_def flat_index_def comp_def)

lemma getitem_np_where:
  "ncols a = ncols m \<Longrightarrow>
   getitem a (np_where m) = map (\<lambda>k. data a ! k) (filter (\<lambda>k. data m ! k) [0..<length (data m)])"
  by (simp add: getitem_def np_where_def flat_index_def comp_def)

lemma zip_self_map: "zip ks (map h ks) = map (\<lambda>k. (k, h k)) ks"
  by (induction ks) simp_all

lemma data_setitem_where:
  assumes "ncols a = ncols m"
    and "vs = map g (filter (\<lambda>k. data m ! k) [0..<length (data m)])"
    and "length (data m) = length (data a)"
    and "k < length (data a)"
  shows "data (setitem a (np_where m) vs) ! k = (if data m ! k then g k else data a ! k)"
  using assms
  by (simp add: setitem_def flat_np_where zip_self_map scatter_map_nth)

lemma shape_setitem [simp]: "shape (setitem a idx vs) = shape a"
  by (simp add: setitem_def)

lemma length_data_setitem [simp]: "length (data (setitem a idx vs)) = length (data a)"
  by (simp add: setitem_def)

lemma ncols_setitem [simp]: "ncols (setitem a idx vs) = ncols a"
  by (simp add: ncols_def)


lemma shape_setitem_scalar [simp]: "shape (setitem_scalar a idx s) = shape a"
  by (simp add: setitem_scalar_def)

lemma length_data_setitem_scalar [simp]: "length (data (setitem_scalar a idx s)) = length (data a)"
  by (simp add: setitem_scalar_def)

lemma ncols_setitem_scalar [simp]: "ncols (setitem_scalar a idx s) = ncols a"
  by (simp add: ncols_def)

lemma data_setitem_scalar_where:
  assumes "ncols a = ncols m"
    and "length (data m) = length (data a)"
    and "k < length (data a)"
  shows "data (setitem_scalar a (np_where m) s) ! k = (if data m ! k then s else data a ! k)"
proof -
  have "replicate (length (np_where m)) s =
        map (\<lambda>k. s) (filter (\<lambda>k. data m ! k) [0..<length (data m)])"
    by (simp add: np_where_def map_replicate_const)
  then show ?thesis
    unfolding setitem_scalar_def using assms
    by (simp add: data_setitem_where [where g = "\<lambda>k. s"])
qed

lemma shape_setitem_mask [simp]: "shape (setitem_mask a m s) = shape a"
  by (simp add: setitem_mask_def)

lemma data_setitem_mask:
  "length (data m) = length (data a) \<Longrightarrow> k < length (data a) \<Longrightarrow>
   data (setitem_mask a m s) ! k = (if data m ! k then s else data a ! k)"
  by (simp add: setitem_mask_def)

lemma length_data_setitem_mask:
  "length (data m) = length (data a) \<Longrightarrow> length (data (setitem_mask a m s)) = length (data a)"
  by (simp add: setitem_mask_def)

lemma mask_length [simp]:
  "length (data (get_land_surface_mask self key)) = length (data (ndvi self))"
  by (cases key) (simp_all add: get_land_surface_mask_def arr_and_def arr_cmp_def)

lemma mask_ncols [simp]:
  "ncols (get_land_surface_mask self key) = ncols (ndvi self)"
  by (cases key) (simp_all add: get_land_surface_mask_def arr_and_def arr_cmp_def ncols_def)

lemma mask_shape [simp]:
  "shape (get_land_surface_mask self key) = shape (ndvi self)"
  by (cases key) (simp_all add: get_land_surface_mask_def arr_and_def arr_cmp_def)

lemma mask_baresoil:
  "k < length (data (ndvi self)) \<Longrightarrow>
   data (get_land_surface_mask self Baresoil) ! k =
     (fge (data (ndvi self) ! k) (Fin (- 1)) \<and> flt (data (ndvi self) ! k) (Fin 0.2))"
  by (simp add: get_land_surface_mask_def arr_and_def arr_cmp_def)

lemma mask_vegetation:
  "k < length (data (ndvi self)) \<Longrightarrow>
   data (get_land_surface_mask self Vegetation) ! k =
     (fgt (data (ndvi self) ! k) (Fin 0.5) \<and> fle (data (ndvi self) ! k) (Fin 1))"
  by (simp add: get_land_surface_mask_def arr_and_def arr_cmp_def)

lemma mask_mixed:
  "k < length (data (ndvi self)) \<Longrightarrow>
   data (get_land_surface_mask self Mixed) ! k =
     (fge (data (ndvi self) ! k) (Fin 0.2) \<and> fle (data (ndvi self) ! k) (Fin 0.5))"
  by (simp add: get_land_surface_mask_def arr_and_def arr_cmp_def)

lemma indices_eq:
  "get_landcover_mask_indices self key = np_where (get_land_surface_mask self key)"
  by (cases key) (simp_all add: get_landcover_mask_indices_def Let_def)

lemma mono_init_fields:
  "length (shape nd) = 2 \<Longrightarrow>
   \<exists>self. ComputeMonoWindowEmissivity_init nd rb = Inr self \<and> ndvi self = nd \<and> red_band self = rb \<and>
     emissivity self = zeros_like nd \<and> nan_mask self = np_isnan nd \<and>
     emissivity_soil self = 0.97 \<and> emissivity_veg self = 0.99"
  by (simp add: ComputeMonoWindowEmissivity_init_def EmissivityParent_init_def
      emissivity_parent.defs emissivity_model.defs)


lemma mono_compute_data:
  assumes len: "length (data (emissivity self)) = length (data (ndvi self))"
    and nc: "ncols (emissivity self) = ncols (ndvi self)"
    and nm: "length (data (nan_mask self)) = length (data (ndvi self))"
  shows "\<exists>self' out. ComputeMonoWindowEmissivity_compute_emissivity self = (self', Inr out) \<and>
      nan_mask self' = nan_mask self \<and>
      shape out = shape (emissivity self) \<and>
      length (data out) = length (data (ndvi self)) \<and>
      (\<forall>k<length (data (ndvi self)). data out ! k =
        (if data (nan_mask self) ! k then NaN
         else if data (get_land_surface_mask self Mixed) ! k
           then fadd (fmul (Fin 0.004)
                        (fpow2 (fdiv (fsub (data (ndvi self) ! k) (Fin 0.2)) (Fin (0.5 - 0.2)))))
                  (Fin 0.986)
         else if data (get_land_surface_mask self Vegetation) ! k then Fin (emissivity_veg self)
         else if data (get_land_surface_mask self Baresoil) ! k then Fin (emissivity_soil self)
         else data (emissivity self) ! k))"
proof -
  define mk where "mk = get_land_surface_mask self"
  define e1 where "e1 = setitem_scalar (emissivity self) (np_where (mk Baresoil)) (Fin (emissivity_soil self))"
  define e2 where "e2 = setitem_scalar e1 (np_where (mk Vegetation)) (Fin (emissivity_veg self))"
  define F where "F = (\<lambda>x. fadd (fmul (Fin 0.004)
                        (fpow2 (fdiv (fsub x (Fin 0.2)) (Fin (0.5 - 0.2)))))
                  (Fin 0.986))"
  define e3 where "e3 = setitem e2 (np_where (mk Mixed)) (map F (getitem (ndvi self) (np_where (mk Mixed))))"
  define e4 where "e4 = setitem_mask e3 (nan_mask self) NaN"
  have res: "ComputeMonoWindowEmissivity_compute_emissivity self = (self\<lparr>emissivity := e4\<rparr>, Inr e4)"
    by (simp add: ComputeMonoWindowEmissivity_compute_emissivity_def Let_def indices_eq
        e1_def e2_def e3_def e4_def F_def mk_def)
  have l1: "length (data e1) = length (data (ndvi self))" and n1: "ncols e1 = ncols (ndvi self)"
    by (simp_all add: e1_def len nc)
  have l2: "length (data e2) = length (data (ndvi self))" and n2: "ncols e2 = ncols (ndvi self)"
    by (simp_all add: e2_def l1 n1)
  have l3: "length (data e3) = length (data (ndvi self))"
    by (simp add: e3_def l2)
  have l4: "length (data e4) = length (data (ndvi self))"
    by (simp add: e4_def length_data_setitem_mask l3 nm)
  have sh: "shape e4 = shape (emissivity self)"
    by (simp add: e4_def e3_def e2_def e1_def)
  have px: "data e4 ! k =
        (if data (nan_mask self) ! k then NaN
         else if data (mk Mixed) ! k then F (data (ndvi self) ! k)
         else if data (mk Vegetation) ! k then Fin (emissivity_veg self)
         else if data (mk Baresoil) ! k then Fin (emissivity_soil self)
         else data (emissivity self) ! k)" if k: "k < length (data (ndvi self))" for k
  proof -
    have d1: "data e1 ! k = (if data (mk Baresoil) ! k then Fin (emissivity_soil self)
                             else data (emissivity self) ! k)"
      unfolding e1_def using k
      by (intro data_setitem_scalar_where) (simp_all add: mk_def len nc)
    have d2: "data e2 ! k = (if data (mk Vegetation) ! k then Fin (emissivity_veg self)
                             else data e1 ! k)"
      unfolding e2_def using k
      by (intro data_setitem_scalar_where) (simp_all add: mk_def l1 n1)
    have vs: "map F (getitem (ndvi self) (np_where (mk Mixed))) =
              map (\<lambda>k. F (data (ndvi self) ! k))
                (filter (\<lambda>k. data (mk Mixed) ! k) [0..<length (data (mk Mixed))])"
      by (simp add: getitem_np_where mk_def comp_def)
    have d3: "data e3 ! k = (if data (mk Mixed) ! k then F (data (ndvi self) ! k)
                             else data e2 ! k)"
      unfolding e3_def using k
      by (intro data_setitem_where [where g = "\<lambda>k. F (data (ndvi self) ! k)"])
         (simp_all add: vs l2 n2, simp_all add: mk_def)
    have d4: "data e4 ! k = (if data (nan_mask self) ! k then NaN else data e3 ! k)"
      unfolding e4_def using k by (intro data_setitem_mask) (simp_all add: l3 nm)
    show ?thesis by (simp add: d1 d2 d3 d4)
  qed
  show ?thesis
    using res l4 sh px by (simp add: mk_def F_def)
qed


lemma map2_same: "map2 f (map g xs) (map h xs) = map (\<lambda>x. f (g x) (h x)) xs"
  by (induction xs) simp_all

lemma nbem_compute_data:
  assumes rb: "red_band self = Some r"
    and len: "length (data (emissivity self)) = length (data (ndvi self))"
    and nc: "ncols (emissivity self) = ncols (ndvi self)"
    and nr: "ncols r = ncols (ndvi self)"
    and nm: "length (data (nan_mask self)) = length (data (ndvi self))"
  shows "\<exists>self' out. ComputeEmissivityNBEM_compute_emissivity fvc cav self = (self', Inr out) \<and>
      nan_mask self' = nan_mask self \<and>
      shape out = shape (emissivity self) \<and>
      length (data out) = length (data (ndvi self)) \<and>
      (\<forall>k<length (data (ndvi self)). data out ! k =
        (if data (nan_mask self) ! k then NaN
         else if data (get_land_surface_mask self Vegetation) ! k
           then fadd (Fin (emissivity_veg self)) (cav (fvc (data (ndvi self) ! k)))
         else if data (get_land_surface_mask self Mixed) ! k
           then fadd (fadd (fmul (Fin (emissivity_veg self)) (fvc (data (ndvi self) ! k)))
                        (fmul (Fin (emissivity_soil self))
                           (fsub (Fin 1) (fvc (data (ndvi self) ! k)))))
                  (cav (fvc (data (ndvi self) ! k)))
         else if data (get_land_surface_mask self Baresoil) ! k
           then fsub (Fin 0.973) (fmul (Fin 0.047) (data r ! k))
         else data (emissivity self) ! k))"
proof -
  define mk where "mk = get_land_surface_mask self"
  define fc where "fc = compute_fvc fvc self"
  define ce where "ce = compute_cavity_effect fvc cav self"
  define B where "B = (\<lambda>x. fsub (Fin 0.973) (fmul (Fin 0.047) x))"
  define M1 where "M1 = (\<lambda>f. fmul (Fin (emissivity_veg self)) f)"
  define M2 where "M2 = (\<lambda>f. fmul (Fin (emissivity_soil self)) (fsub (Fin 1) f))"
  define V where "V = (\<lambda>c. fadd (Fin (emissivity_veg self)) c)"
  define e1 where "e1 = setitem (emissivity self) (np_where (mk Baresoil))
                          (map B (getitem r (np_where (mk Baresoil))))"
  define e2 where "e2 = setitem e1 (np_where (mk Mixed))
                          (map2 fadd
                             (map2 fadd (map M1 (getitem fc (np_where (mk Mixed))))
                                        (map M2 (getitem fc (np_where (mk Mixed)))))
                             (getitem ce (np_where (mk Mixed))))"
  define e3 where "e3 = setitem e2 (np_where (mk Vegetation))
                          (map V (getitem ce (np_where (mk Vegetation))))"
  define e4 where "e4 = setitem_mask e3 (nan_mask self) NaN"
  have res: "ComputeEmissivityNBEM_compute_emissivity fvc cav self = (self\<lparr>emissivity := e4\<rparr>, Inr e4)"
    by (simp add: ComputeEmissivityNBEM_compute_emissivity_def rb Let_def indices_eq
        e1_def e2_def e3_def e4_def B_def M1_def M2_def V_def mk_def fc_def ce_def)
  have fcn: "ncols fc = ncols (ndvi self)" and cen: "ncols ce = ncols (ndvi self)"
    by (simp_all add: fc_def ce_def compute_fvc_def compute_cavity_effect_def
        fractional_vegetation_cover_def cavity_effect_def arr_map_def ncols_def)
  have l1: "length (data e1) = length (data (ndvi self))" and n1: "ncols e1 = ncols (ndvi self)"
    by (simp_all add: e1_def len nc)
  have l2: "length (data e2) = length (data (ndvi self))" and n2: "ncols e2 = ncols (ndvi self)"
    by (simp_all add: e2_def l1 n1)
  have l3: "length (data e3) = length (data (ndvi self))"
    by (simp add: e3_def l2)
  have l4: "length (data e4) = length (data (ndvi self))"
    by (simp add: e4_def length_data_setitem_mask l3 nm)
  have sh: "shape e4 = shape (emissivity self)"
    by (simp add: e4_def e3_def e2_def e1_def)
  have px: "data e4 ! k =
        (if data (nan_mask self) ! k then NaN
         else if data (mk Vegetation) ! k then V (cav (fvc (data (ndvi self) ! k)))
         else if data (mk Mixed) ! k
           then fadd (fadd (M1 (fvc (data (ndvi self) ! k))) (M2 (fvc (data (ndvi self) ! k))))
                  (cav (fvc (data (ndvi self) ! k)))
         else if data (mk Baresoil) ! k then B (data r ! k)
         else data (emissivity self) ! k)" if k: "k < length (data (ndvi self))" for k
  proof -
    have fck: "data fc ! k = fvc (data (ndvi self) ! k)"
      using k by (simp add: fc_def compute_fvc_def fractional_vegetation_cover_def arr_map_def)
    have cek: "data ce ! k = cav (fvc (data (ndvi self) ! k))"
      using k by (simp add: ce_def compute_cavity_effect_def compute_fvc_def
          fractional_vegetation_cover_def cavity_effect_def arr_map_def)
    have v1: "map B (getitem r (np_where (mk Baresoil))) =
              map (\<lambda>k. B (data r ! k))
                (filter (\<lambda>k. data (mk Baresoil) ! k) [0..<length (data (mk Baresoil))])"
      by (simp add: getitem_np_where mk_def nr comp_def)
    have d1: "data e1 ! k = (if data (mk Baresoil) ! k then B (data r ! k)
                             else data (emissivity self) ! k)"
      unfolding e1_def using k
      by (intro data_setitem_where [where g = "\<lambda>k. B (data r ! k)"])
         (simp_all add: v1 len nc, simp_all add: mk_def)
    have v2: "map2 fadd
                (map2 fadd (map M1 (getitem fc (np_where (mk Mixed))))
                           (map M2 (getitem fc (np_where (mk Mixed)))))
                (getitem ce (np_where (mk Mixed))) =
              map (\<lambda>k. fadd (fadd (M1 (data fc ! k)) (M2 (data fc ! k))) (data ce ! k))
                (filter (\<lambda>k. data (mk Mixed) ! k) [0..<length (data (mk Mixed))])"
      by (simp add: getitem_np_where mk_def fcn cen map2_same del: map_map)
         (simp add: map2_same comp_def)
    have d2: "data e2 ! k = (if data (mk Mixed) ! k
                             then fadd (fadd (M1 (data fc ! k)) (M2 (data fc ! k))) (data ce ! k)
                             else data e1 ! k)"
      unfolding e2_def using k
      by (intro data_setitem_where
            [where g = "\<lambda>k. fadd (fadd (M1 (data fc ! k)) (M2 (data fc ! k))) (data ce ! k)"])
         (simp_all add: v2 l1 n1, simp_all add: mk_def)
    have v3: "map V (getitem ce (np_where (mk Vegetation))) =
              map (\<lambda>k. V (data ce ! k))
                (filter (\<lambda>k. data (mk Vegetation) ! k) [0..<length (data (mk Vegetation))])"
      by (simp add: getitem_np_where mk_def cen comp_def)
    have d3: "data e3 ! k = (if data (mk Vegetation) ! k then V (data ce ! k) else data e2 ! k)"
      unfolding e3_def using k
      by (intro data_setitem_where [where g = "\<lambda>k. V (data ce ! k)"])
         (simp_all add: v3 l2 n2, simp_all add: mk_def)
    have d4: "data e4 ! k = (if data (nan_mask self) ! k then NaN else data e3 ! k)"
      unfolding e4_def using k by (intro data_setitem_mask) (simp_all add: l3 nm)
    show ?thesis by (simp add: d1 d2 d3 d4 fck cek)
  qed
  show ?thesis
    using res l4 sh px by (simp add: mk_def B_def M1_def M2_def V_def)
qed

lemma gopinadh_compute_data:
  assumes nm: "length (data (nan_mask self)) = length (data (ndvi self))"
  shows "\<exists>self' out. ComputeEmissivityGopinadh_compute_emissivity fvc self = (self', Inr out) \<and>
      nan_mask self' = nan_mask self \<and>
      shape out = shape (ndvi self) \<and>
      length (data out) = length (data (ndvi self)) \<and>
      (\<forall>k<length (data (ndvi self)). data out ! k =
        (if data (nan_mask self) ! k then NaN
         else fadd (fmul (Fin (emissivity_soil self)) (fsub (Fin 1) (fvc (data (ndvi self) ! k))))
                (fmul (Fin (emissivity_veg self)) (fvc (data (ndvi self) ! k)))))"
  using nm
  by (simp add: ComputeEmissivityGopinadh_compute_emissivity_def Let_def compute_fvc_def
      fractional_vegetation_cover_def arr_map_def arr_map2_def setitem_mask_def)

section \<open>The call protocol and the results of the models\<close>

lemma call_ok:
  assumes shp: "\<forall>r. red_band self = Some r \<longrightarrow> shape r = shape (ndvi self)"
    and c: "compute self = (self', Inr out)"
    and nm: "nan_mask self' = nan_mask self"
  shows "EmissivityParent_call compute self =
           (self'\<lparr>emissivity := setitem_mask out (nan_mask self) NaN\<rparr>,
            Inr (setitem_mask out (nan_mask self) NaN))"
proof -
  have ok: "(case red_band self of None \<Rightarrow> False | Some rb \<Rightarrow> shape (ndvi self) \<noteq> shape rb) = False"
  proof (cases "red_band self")
    case None
    then show ?thesis by simp
  next
    case (Some r)
    with shp have "shape r = shape (ndvi self)" by blast
    with Some show ?thesis by simp
  qed
  show ?thesis
    unfolding EmissivityParent_call_def ok c by (simp add: nm Let_def)
qed


lemma nbem_init_fields:
  "length (shape nd) = 2 \<Longrightarrow>
   \<exists>self. ComputeEmissivityNBEM_init nd rb = Inr self \<and> ndvi self = nd \<and> red_band self = rb \<and>
     emissivity self = zeros_like nd \<and> nan_mask self = np_isnan nd \<and>
     emissivity_soil self = 0.9668 \<and> emissivity_veg self = 0.9863"
  by (simp add: ComputeEmissivityNBEM_init_def EmissivityParent_init_def
      emissivity_parent.defs emissivity_model.defs)

lemma gopinadh_init_fields:
  "length (shape nd) = 2 \<Longrightarrow>
   \<exists>self. ComputeEmissivityGopinadh_init nd rb = Inr self \<and> ndvi self = nd \<and> red_band self = rb \<and>
     emissivity self = zeros_like nd \<and> nan_mask self = np_isnan nd \<and>
     emissivity_soil self = 0.9668 \<and> emissivity_veg self = 0.9747"
  by (simp add: ComputeEmissivityGopinadh_init_def EmissivityParent_init_def
      emissivity_parent.defs emissivity_model.defs)

lemma zeros_like_facts:
  "shape (zeros_like a) = shape a"
  "length (data (zeros_like a)) = length (data a)"
  "ncols (zeros_like a) = ncols a"
  "k < length (data a) \<Longrightarrow> data (zeros_like a) ! k = Fin 0"
  by (simp_all add: zeros_like_def ncols_def)

lemma np_isnan_facts:
  "shape (np_isnan a) = shape a"
  "length (data (np_isnan a)) = length (data a)"
  "k < length (data a) \<Longrightarrow> data (np_isnan a) ! k = isnan (data a ! k)"
  by (simp_all add: np_isnan_def)

lemma ndarray_eqI:
  "shape a = s \<Longrightarrow> length (data a) = length d \<Longrightarrow>
   (\<And>k. k < length d \<Longrightarrow> data a ! k = d ! k) \<Longrightarrow> (a :: 'a ndarray) = \<lparr>shape = s, data = d\<rparr>"
  by (cases a) (simp add: nth_equalityI)

lemma mono_run_eq:
  assumes d2: "length (shape nd) = 2"
    and shp: "\<forall>r. rb = Some r \<longrightarrow> shape r = shape nd"
  shows "ComputeMonoWindowEmissivity_run nd rb =
           Inr \<lparr>shape = shape nd, data = map mono_pixel (data nd)\<rparr>"
proof -
  from mono_init_fields [OF d2, of rb] obtain self where
    init: "ComputeMonoWindowEmissivity_init nd rb = Inr self" and
    f: "ndvi self = nd" "red_band self = rb" "emissivity self = zeros_like nd"
       "nan_mask self = np_isnan nd" "emissivity_soil self = 0.97" "emissivity_veg self = 0.99"
    by blast
  have pre: "length (data (emissivity self)) = length (data (ndvi self))"
    "ncols (emissivity self) = ncols (ndvi self)"
    "length (data (nan_mask self)) = length (data (ndvi self))"
    by (simp_all add: f zeros_like_facts np_isnan_facts)
  from mono_compute_data [OF pre] obtain self' out where
    c: "ComputeMonoWindowEmissivity_compute_emissivity self = (self', Inr out)" and
    nm: "nan_mask self' = nan_mask self" and
    so: "shape out = shape (emissivity self)" and
    lo: "length (data out) = length (data (ndvi self))" and
    px: "\<forall>k<length (data (ndvi self)). data out ! k =
        (if data (nan_mask self) ! k then NaN
         else if data (get_land_surface_mask self Mixed) ! k
           then fadd (fmul (Fin 0.004)
                        (fpow2 (fdiv (fsub (data (ndvi self) ! k) (Fin 0.2)) (Fin (0.5 - 0.2)))))
                  (Fin 0.986)
         else if data (get_land_surface_mask self Vegetation) ! k then Fin (emissivity_veg self)
         else if data (get_land_surface_mask self Baresoil) ! k then Fin (emissivity_soil self)
         else data (emissivity self) ! k)"
    by (elim exE conjE) (rule that)
  have shp': "\<forall>r. red_band self = Some r \<longrightarrow> shape r = shape (ndvi self)"
    unfolding f by (rule shp)
  have run: "ComputeMonoWindowEmissivity_run nd rb = Inr (setitem_mask out (nan_mask self) NaN)"
    unfolding ComputeMonoWindowEmissivity_run_def init
    by (simp add: call_ok [where compute = ComputeMonoWindowEmissivity_compute_emissivity
          and self = self, OF shp' c nm])
  have "setitem_mask out (nan_mask self) NaN = \<lparr>shape = shape nd, data = map mono_pixel (data nd)\<rparr>"
  proof (rule ndarray_eqI)
    show "shape (setitem_mask out (nan_mask self) NaN) = shape nd"
      by (simp add: so f zeros_like_facts)
    show "length (data (setitem_mask out (nan_mask self) NaN)) = length (map mono_pixel (data nd))"
      using lo by (simp add: setitem_mask_def f np_isnan_facts)
  next
    fix k assume "k < length (map mono_pixel (data nd))"
    then have k: "k < length (data nd)" by simp
    have m: "data (get_land_surface_mask self Mixed) ! k =
               (fge (data nd ! k) (Fin 0.2) \<and> fle (data nd ! k) (Fin 0.5))"
      "data (get_land_surface_mask self Vegetation) ! k =
               (fgt (data nd ! k) (Fin 0.5) \<and> fle (data nd ! k) (Fin 1))"
      "data (get_land_surface_mask self Baresoil) ! k =
               (fge (data nd ! k) (Fin (- 1)) \<and> flt (data nd ! k) (Fin 0.2))"
      using k mask_mixed [of k self] mask_vegetation [of k self] mask_baresoil [of k self]
      by (simp_all add: f)
    have nk: "data (np_isnan nd) ! k = isnan (data nd ! k)"
      using k by (simp add: np_isnan_facts)
    have zk: "data (zeros_like nd) ! k = Fin 0"
      using k by (simp add: zeros_like_facts)
    from px k have o: "data out ! k =
        (if data (nan_mask self) ! k then NaN
         else if data (get_land_surface_mask self Mixed) ! k
           then fadd (fmul (Fin 0.004)
                        (fpow2 (fdiv (fsub (data (ndvi self) ! k) (Fin 0.2)) (Fin (0.5 - 0.2)))))
                  (Fin 0.986)
         else if data (get_land_surface_mask self Vegetation) ! k then Fin (emissivity_veg self)
         else if data (get_land_surface_mask self Baresoil) ! k then Fin (emissivity_soil self)
         else data (emissivity self) ! k)"
      by (simp only: f)
    have "data (setitem_mask out (nan_mask self) NaN) ! k =
            (if data (nan_mask self) ! k then NaN else data out ! k)"
      using k lo by (intro data_setitem_mask) (simp_all add: f np_isnan_facts)
    then show "data (setitem_mask out (nan_mask self) NaN) ! k = map mono_pixel (data nd) ! k"
      using k unfolding o m nk zk f mono_pixel_def by simp
  qed
  with run show ?thesis by simp
qed

lemma nbem_run_eq:
  assumes d2: "length (shape nd) = 2"
    and shp: "shape r = shape nd"
    and len: "length (data r) = length (data nd)"
  shows "ComputeEmissivityNBEM_run fvc cav nd (Some r) =
           Inr \<lparr>shape = shape nd, data = map2 (nbem_pixel fvc cav) (data nd) (data r)\<rparr>"
proof -
  from nbem_init_fields [OF d2, of "Some r"] obtain self where
    init: "ComputeEmissivityNBEM_init nd (Some r) = Inr self" and
    f: "ndvi self = nd" "emissivity self = zeros_like nd"
       "nan_mask self = np_isnan nd" "emissivity_soil self = 0.9668" "emissivity_veg self = 0.9863"
    and rb: "red_band self = Some r"
    by blast
  have pre: "length (data (emissivity self)) = length (data (ndvi self))"
    "ncols (emissivity self) = ncols (ndvi self)"
    "ncols r = ncols (ndvi self)"
    "length (data (nan_mask self)) = length (data (ndvi self))"
    by (simp_all add: f zeros_like_facts np_isnan_facts ncols_def shp)
  from nbem_compute_data [OF rb pre, of fvc cav] obtain self' out where
    c: "ComputeEmissivityNBEM_compute_emissivity fvc cav self = (self', Inr out)" and
    nm: "nan_mask self' = nan_mask self" and
    so: "shape out = shape (emissivity self)" and
    lo: "length (data out) = length (data (ndvi self))" and
    px: "\<forall>k<length (data (ndvi self)). data out ! k =
        (if data (nan_mask self) ! k then NaN
         else if data (get_land_surface_mask self Vegetation) ! k
           then fadd (Fin (emissivity_veg self)) (cav (fvc (data (ndvi self) ! k)))
         else if data (get_land_surface_mask self Mixed) ! k
           then fadd (fadd (fmul (Fin (emissivity_veg self)) (fvc (data (ndvi self) ! k)))
                        (fmul (Fin (emissivity_soil self))
                           (fsub (Fin 1) (fvc (data (ndvi self) ! k)))))
                  (cav (fvc (data (ndvi self) ! k)))
         else if data (get_land_surface_mask self Baresoil) ! k
           then fsub (Fin 0.973) (fmul (Fin 0.047) (data r ! k))
         else data (emissivity self) ! k)"
    by (elim exE conjE) (rule that)
  have shp': "\<forall>r'. red_band self = Some r' \<longrightarrow> shape r' = shape (ndvi self)"
    unfolding rb f using shp by blast
  have run: "ComputeEmissivityNBEM_run fvc cav nd (Some r) = Inr (setitem_mask out (nan_mask self) NaN)"
    unfolding ComputeEmissivityNBEM_run_def init
    by (simp add: call_ok [where compute = "ComputeEmissivityNBEM_compute_emissivity fvc cav"
          and self = self, OF shp' c nm])
  have "setitem_mask out (nan_mask self) NaN =
          \<lparr>shape = shape nd, data = map2 (nbem_pixel fvc cav) (data nd) (data r)\<rparr>"
  proof (rule ndarray_eqI)
    show "shape (setitem_mask out (nan_mask self) NaN) = shape nd"
      by (simp add: so f zeros_like_facts)
    show "length (data (setitem_mask out (nan_mask self) NaN)) =
          length (map2 (nbem_pixel fvc cav) (data nd) (data r))"
      using lo len by (simp add: setitem_mask_def f np_isnan_facts)
  next
    fix k assume "k < length (map2 (nbem_pixel fvc cav) (data nd) (data r))"
    then have k: "k < length (data nd)" and kr: "k < length (data r)" by simp_all
    have m: "data (get_land_surface_mask self Mixed) ! k =
               (fge (data nd ! k) (Fin 0.2) \<and> fle (data nd ! k) (Fin 0.5))"
      "data (get_land_surface_mask self Vegetation) ! k =
               (fgt (data nd ! k) (Fin 0.5) \<and> fle (data nd ! k) (Fin 1))"
      "data (get_land_surface_mask self Baresoil) ! k =
               (fge (data nd ! k) (Fin (- 1)) \<and> flt (data nd ! k) (Fin 0.2))"
      using k mask_mixed [of k self] mask_vegetation [of k self] mask_baresoil [of k self]
      by (simp_all add: f)
    have nk: "data (np_isnan nd) ! k = isnan (data nd ! k)"
      using k by (simp add: np_isnan_facts)
    have zk: "data (zeros_like nd) ! k = Fin 0"
      using k by (simp add: zeros_like_facts)
    from px k have o: "data out ! k =
        (if data (nan_mask self) ! k then NaN
         else if data (get_land_surface_mask self Vegetation) ! k
           then fadd (Fin (emissivity_veg self)) (cav (fvc (data (ndvi self) ! k)))
         else if data (get_land_surface_mask self Mixed) ! k
           then fadd (fadd (fmul (Fin (emissivity_veg self)) (fvc (data (ndvi self) ! k)))
                        (fmul (Fin (emissivity_soil self))
                           (fsub (Fin 1) (fvc (data (ndvi self) ! k)))))
                  (cav (fvc (data (ndvi self) ! k)))
         else if data (get_land_surface_mask self Baresoil) ! k
           then fsub (Fin 0.973) (fmul (Fin 0.047) (data r ! k))
         else data (emissivity self) ! k)"
      by (simp only: f)
    have "data (setitem_mask out (nan_mask self) NaN) ! k =
            (if data (nan_mask self) ! k then NaN else data out ! k)"
      using k lo by (intro data_setitem_mask) (simp_all add: f np_isnan_facts)
    then show "data (setitem_mask out (nan_mask self) NaN) ! k =
               map2 (nbem_pixel fvc cav) (data nd) (data r) ! k"
      using k kr unfolding o m nk zk f nbem_pixel_def by simp
  qed
  with run show ?thesis by simp
qed

lemma gopinadh_run_eq:
  assumes d2: "length (shape nd) = 2"
    and shp: "\<forall>r. rb = Some r \<longrightarrow> shape r = shape nd"
  shows "ComputeEmissivityGopinadh_run fvc nd rb =
           Inr \<lparr>shape = shape nd, data = map (gopinadh_pixel fvc) (data nd)\<rparr>"
proof -
  from gopinadh_init_fields [OF d2, of rb] obtain self where
    init: "ComputeEmissivityGopinadh_init nd rb = Inr self" and
    f: "ndvi self = nd" "red_band self = rb" "emissivity self = zeros_like nd"
       "nan_mask self = np_isnan nd" "emissivity_soil self = 0.9668" "emissivity_veg self = 0.9747"
    by blast
  have pre: "length (data (nan_mask self)) = length (data (ndvi self))"
    by (simp add: f np_isnan_facts)
  from gopinadh_compute_data [OF pre, of fvc] obtain self' out where
    c: "ComputeEmissivityGopinadh_compute_emissivity fvc self = (self', Inr out)" and
    nm: "nan_mask self' = nan_mask self" and
    so: "shape out = shape (ndvi self)" and
    lo: "length (data out) = length (data (ndvi self))" and
    px: "\<forall>k<length (data (ndvi self)). data out ! k =
        (if data (nan_mask self) ! k then NaN
         else fadd (fmul (Fin (emissivity_soil self)) (fsub (Fin 1) (fvc (data (ndvi self) ! k))))
                (fmul (Fin (emissivity_veg self)) (fvc (data (ndvi self) ! k))))"
    by (elim exE conjE) (rule that)
  have shp': "\<forall>r. red_band self = Some r \<longrightarrow> shape r = shape (ndvi self)"
    unfolding f by (rule shp)
  have run: "ComputeEmissivityGopinadh_run fvc nd rb = Inr (setitem_mask out (nan_mask self) NaN)"
    unfolding ComputeEmissivityGopinadh_run_def init
    by (simp add: call_ok [where compute = "ComputeEmissivityGopinadh_compute_emissivity fvc"
          and self = self, OF shp' c nm])
  have "setitem_mask out (nan_mask self) NaN =
          \<lparr>shape = shape nd, data = map (gopinadh_pixel fvc) (data nd)\<rparr>"
  proof (rule ndarray_eqI)
    show "shape (setitem_mask out (nan_mask self) NaN) = shape nd"
      by (simp add: so f)
    show "length (data (setitem_mask out (nan_mask self) NaN)) =
          length (map (gopinadh_pixel fvc) (data nd))"
      using lo by (simp add: setitem_mask_def f np_isnan_facts)
  next
    fix k assume "k < length (map (gopinadh_pixel fvc) (data nd))"
    then have k: "k < length (data nd)" by simp
    have nk: "data (np_isnan nd) ! k = isnan (data nd ! k)"
      using k by (simp add: np_isnan_facts)
    from px k have o: "data out ! k =
        (if data (nan_mask self) ! k then NaN
         else fadd (fmul (Fin (emissivity_soil self)) (fsub (Fin 1) (fvc (data (ndvi self) ! k))))
                (fmul (Fin (emissivity_veg self)) (fvc (data (ndvi self) ! k))))"
      by (simp only: f)
    have "data (setitem_mask out (nan_mask self) NaN) ! k =
            (if data (nan_mask self) ! k then NaN else data out ! k)"
      using k lo by (intro data_setitem_mask) (simp_all add: f np_isnan_facts)
    then show "data (setitem_mask out (nan_mask self) NaN) ! k =
               map (gopinadh_pixel fvc) (data nd) ! k"
      using k unfolding o nk f gopinadh_pixel_def by simp
  qed
  with run show ?thesis by simp
qed

section \<open>NaN in the results\<close>

lemma isfinite_conv: "isfinite x = (\<exists>f. x = Fin f)"
  by (cases x) simp_all

lemma isnan_conv: "isnan x = (x = NaN)"
  by (cases x) simp_all

lemma isnan_fadd_Fin [simp]: "isnan (fadd (Fin a) y) = isnan y"
  by (cases y) simp_all

lemma isnan_fadd_Fin2 [simp]: "isnan (fadd y (Fin a)) = isnan y"
  by (cases y) simp_all

lemma isnan_fneg [simp]: "isnan (fneg y) = isnan y"
  by (cases y) simp_all

lemma isnan_fmul_Fin: "a \<noteq> 0 \<Longrightarrow> isnan (fmul (Fin a) y) = isnan y"
  by (cases y) simp_all

lemma isnan_mono_pixel: "isnan (mono_pixel x) = isnan x"
  by (cases x) (simp_all add: mono_pixel_def fge_def fgt_def fsub_def fpow2_def)

lemma isnan_nbem_pixel_nan: "isnan x \<Longrightarrow> isnan (nbem_pixel fvc cav x r)"
  by (simp add: nbem_pixel_def)

lemma isnan_gopinadh_pixel_nan: "isnan x \<Longrightarrow> isnan (gopinadh_pixel fvc x)"
  by (simp add: gopinadh_pixel_def)

lemma wf_same_length:
  "wf_array a \<Longrightarrow> wf_array b \<Longrightarrow> shape a = shape b \<Longrightarrow> length (data a) = length (data b)"
  by (simp add: wf_array_def)

section \<open>The claims\<close>

subsection \<open>C2: the values of the mono-window model\<close>

lemma mono_pixel_Fin:
  "mono_pixel (Fin v) =
     (if 0.2 \<le> v \<and> v \<le> 0.5 then Fin (0.004 * ((v - 0.2) / (0.5 - 0.2))\<^sup>2 + 0.986)
      else if 0.5 < v \<and> v \<le> 1 then Fin 0.99
      else if - 1 \<le> v \<and> v < 0.2 then Fin 0.97
      else Fin 0)"
  by (simp add: mono_pixel_def fge_def fgt_def fsub_def fpow2_def power2_eq_square)

text \<open>
  C2. For a two-dimensional NDVI raster, with no red band or with one of the same
  shape, the mono-window model returns a raster of the shape of NDVI, the same one
  whether the red band is given or not, in which every pixel with NDVI in \<open>[-1, 0.2)\<close>
  is \<open>0.97\<close>, every pixel with NDVI in \<open>(0.5, 1]\<close> is \<open>0.99\<close>, and every pixel with
  NDVI in \<open>[0.2, 0.5]\<close> is \<open>0.004 * ((ndvi - 0.2) / (0.5 - 0.2))\<^sup>2 + 0.986\<close>.
\<close>

theorem mono_window_values:
  assumes d2: "length (shape nd) = 2"
    and shp: "\<forall>r. rb = Some r \<longrightarrow> shape r = shape nd"
  shows "\<exists>out. ComputeMonoWindowEmissivity_run nd rb = Inr out \<and>
      ComputeMonoWindowEmissivity_run nd None = Inr out \<and>
      shape out = shape nd \<and> length (data out) = length (data nd) \<and>
      (\<forall>k v. k < length (data nd) \<and> data nd ! k = Fin v \<longrightarrow>
         (- 1 \<le> v \<and> v < 0.2 \<longrightarrow> data out ! k = Fin 0.97) \<and>
         (0.5 < v \<and> v \<le> 1 \<longrightarrow> data out ! k = Fin 0.99) \<and>
         (0.2 \<le> v \<and> v \<le> 0.5 \<longrightarrow>
            data out ! k = Fin (0.004 * ((v - 0.2) / (0.5 - 0.2))\<^sup>2 + 0.986)))"
proof -
  let ?out = "\<lparr>shape = shape nd, data = map mono_pixel (data nd)\<rparr>"
  have r1: "ComputeMonoWindowEmissivity_run nd rb = Inr ?out"
    by (rule mono_run_eq [OF d2 shp])
  have r2: "ComputeMonoWindowEmissivity_run nd None = Inr ?out"
    by (rule mono_run_eq [OF d2]) simp
  have px: "(- 1 \<le> v \<and> v < 0.2 \<longrightarrow> data ?out ! k = Fin 0.97) \<and>
         (0.5 < v \<and> v \<le> 1 \<longrightarrow> data ?out ! k = Fin 0.99) \<and>
         (0.2 \<le> v \<and> v \<le> 0.5 \<longrightarrow>
            data ?out ! k = Fin (0.004 * ((v - 0.2) / (0.5 - 0.2))\<^sup>2 + 0.986))"
    if "k < length (data nd)" "data nd ! k = Fin v" for k v
    using that by (simp add: mono_pixel_Fin)
  show ?thesis
    apply (rule exI [of _ ?out])
    apply (intro conjI allI impI r1 r2)
    apply simp
    apply simp
    using px apply blast
    using px apply blast
    using px apply blast
    done
qed

text \<open>The scenario of the specification: NDVI \<open>[[-0.5, 0.3], [0.7, NaN]]\<close>, no red band.\<close>

theorem mono_window_values_witness:
  "\<exists>out. ComputeMonoWindowEmissivity_run
            \<lparr>shape = [2, 2], data = [Fin (- 0.5), Fin 0.3, Fin 0.7, NaN]\<rparr> None = Inr out \<and>
         shape out = [2, 2] \<and>
         data out ! 0 = Fin 0.97 \<and> data out ! 2 = Fin 0.99 \<and>
         data out ! 1 = Fin (0.004 * ((0.3 - 0.2) / (0.5 - 0.2))\<^sup>2 + 0.986)"
proof -
  let ?nd = "\<lparr>shape = [2, 2], data = [Fin (- 0.5), Fin 0.3, Fin 0.7, NaN]\<rparr> :: fl ndarray"
  have h1: "length (shape ?nd) = 2" by simp
  have h2: "\<forall>r. (None :: fl ndarray option) = Some r \<longrightarrow> shape r = shape ?nd" by simp
  from mono_window_values [OF h1 h2] obtain out where
    r: "ComputeMonoWindowEmissivity_run ?nd None = Inr out" and s: "shape out = shape ?nd" and
    px: "\<forall>k v. k < length (data ?nd) \<and> data ?nd ! k = Fin v \<longrightarrow>
         (- 1 \<le> v \<and> v < 0.2 \<longrightarrow> data out ! k = Fin 0.97) \<and>
         (0.5 < v \<and> v \<le> 1 \<longrightarrow> data out ! k = Fin 0.99) \<and>
         (0.2 \<le> v \<and> v \<le> 0.5 \<longrightarrow>
            data out ! k = Fin (0.004 * ((v - 0.2) / (0.5 - 0.2))\<^sup>2 + 0.986))"
    by (elim exE conjE) (rule that)
  from px [rule_format, of 0 "- 0.5"] have a: "data out ! 0 = Fin 0.97" by simp
  from px [rule_format, of 2 "0.7"] have b: "data out ! 2 = Fin 0.99" by simp
  from px [rule_format, of 1 "0.3"]
  have c: "data out ! 1 = Fin (0.004 * ((0.3 - 0.2) / (0.5 - 0.2))\<^sup>2 + 0.986)" by simp
  from r s a b c show ?thesis by simp
qed

subsection \<open>C6: the dispatcher and the mono-window model\<close>

text \<open>
  C6. Calling the dispatcher with the method name \<open>avdan\<close> gives the result of
  constructing the mono-window model on the same NDVI raster and red band and calling
  it: the same array, or the same exception.
\<close>

theorem dispatcher_avdan_is_mono_window:
  "Emissivity_call fvc cav nd rb ''avdan'' = ComputeMonoWindowEmissivity_run nd rb"
  by (simp add: Emissivity_call_def EMISSIVITY_METHODS_def get_method_def construct_and_call_def)

subsection \<open>C7: an unknown method name\<close>

text \<open>
  C7. For the method name \<open>unknown\<close> the dispatcher raises the AssertionError of its
  first statement, whose message is \<open>Method not implemented\<close> and names no method.
  The branch of \<^verbatim>\<open>get_method\<close> written to list the methods is never reached from the
  dispatcher, and its message holds the text \<open>{EMMISIVITY_METHODS}\<close> itself, not the
  list.
\<close>

theorem unknown_method_message:
  "Emissivity_call fvc cav nd rb ''unknown'' =
     Inl (AssertionError (ValueError ''Method not implemented'')) \<and>
   get_method ''unknown'' =
     Inl (NotImplementedError
       ''Requested method not implemented. Choose among available methods: {EMMISIVITY_METHODS}'')"
  by (simp add: Emissivity_call_def EMISSIVITY_METHODS_def get_method_def)

subsection \<open>C4: the land-surface classifier\<close>

text \<open>
  C4. \<^verbatim>\<open>_get_land_surface_mask\<close> returns three masks with one entry for each NDVI pixel
  and raises nothing. For every pixel at most one of the three masks is true: they
  are pairwise disjoint. NDVI \<open>0.2\<close> and NDVI \<open>0.5\<close> are mixed, NDVI \<open>1\<close> is
  vegetation and NDVI \<open>-1\<close> is bare soil. A pixel that is NaN, infinite or a finite
  value outside \<open>[-1, 1]\<close> is in none of the three masks.
\<close>

theorem land_surface_classes:
  assumes k: "k < length (data (ndvi self))"
  shows "length (data (get_land_surface_mask self Baresoil)) = length (data (ndvi self)) \<and>
    length (data (get_land_surface_mask self Vegetation)) = length (data (ndvi self)) \<and>
    length (data (get_land_surface_mask self Mixed)) = length (data (ndvi self)) \<and>
    \<not> (data (get_land_surface_mask self Baresoil) ! k \<and>
       data (get_land_surface_mask self Vegetation) ! k) \<and>
    \<not> (data (get_land_surface_mask self Baresoil) ! k \<and>
       data (get_land_surface_mask self Mixed) ! k) \<and>
    \<not> (data (get_land_surface_mask self Vegetation) ! k \<and>
       data (get_land_surface_mask self Mixed) ! k) \<and>
    (data (ndvi self) ! k = Fin 0.2 \<longrightarrow> data (get_land_surface_mask self Mixed) ! k) \<and>
    (data (ndvi self) ! k = Fin 0.5 \<longrightarrow> data (get_land_surface_mask self Mixed) ! k) \<and>
    (data (ndvi self) ! k = Fin 1 \<longrightarrow> data (get_land_surface_mask self Vegetation) ! k) \<and>
    (data (ndvi self) ! k = Fin (- 1) \<longrightarrow> data (get_land_surface_mask self Baresoil) ! k) \<and>
    (\<not> (\<exists>v. data (ndvi self) ! k = Fin v \<and> - 1 \<le> v \<and> v \<le> 1) \<longrightarrow>
       \<not> data (get_land_surface_mask self Baresoil) ! k \<and>
       \<not> data (get_land_surface_mask self Vegetation) ! k \<and>
       \<not> data (get_land_surface_mask self Mixed) ! k)"
  unfolding mask_baresoil [OF k] mask_vegetation [OF k] mask_mixed [OF k] mask_length
  by (cases "data (ndvi self) ! k") (auto simp add: fge_def fgt_def)

text \<open>The four boundary values as one raster; its second pixel, \<open>0.2\<close>, is mixed and not bare soil.\<close>

theorem land_surface_classes_witness:
  "data (get_land_surface_mask
      \<lparr>ndvi = \<lparr>shape = [2, 2], data = [Fin (- 1), Fin 0.2, Fin 0.5, Fin 1]\<rparr>,
       red_band = None,
       emissivity = \<lparr>shape = [2, 2], data = [Fin 0, Fin 0, Fin 0, Fin 0]\<rparr>,
       nan_mask = \<lparr>shape = [2, 2], data = [False, False, False, False]\<rparr>\<rparr> Mixed) ! 1 \<and>
   \<not> data (get_land_surface_mask
      \<lparr>ndvi = \<lparr>shape = [2, 2], data = [Fin (- 1), Fin 0.2, Fin 0.5, Fin 1]\<rparr>,
       red_band = None,
       emissivity = \<lparr>shape = [2, 2], data = [Fin 0, Fin 0, Fin 0, Fin 0]\<rparr>,
       nan_mask = \<lparr>shape = [2, 2], data = [False, False, False, False]\<rparr>\<rparr> Baresoil) ! 1"
proof -
  let ?self = "\<lparr>ndvi = \<lparr>shape = [2, 2], data = [Fin (- 1), Fin 0.2, Fin 0.5, Fin 1]\<rparr>,
       red_band = None,
       emissivity = \<lparr>shape = [2, 2], data = [Fin 0, Fin 0, Fin 0, Fin 0]\<rparr>,
       nan_mask = \<lparr>shape = [2, 2], data = [False, False, False, False]\<rparr>\<rparr>"
  have h: "1 < length (data (ndvi ?self))" by simp
  have x: "data (ndvi ?self) ! 1 = Fin 0.2" by simp
  from land_surface_classes [OF h] x show ?thesis by blast
qed

subsection \<open>C5: the NBEM model without a red band\<close>

lemma call_shape_mismatch:
  "red_band self = Some r \<Longrightarrow> shape r \<noteq> shape (ndvi self) \<Longrightarrow>
   EmissivityParent_call compute self =
     (self, Inl (AssertionError (ValueError
        ''Input images (NDVI and Red band) must be of equal dimension'')))"
  by (auto simp add: EmissivityParent_call_def)

text \<open>
  C5. For every two-dimensional NDVI raster, constructing the NBEM model with no red
  band succeeds and calling it raises the AssertionError that carries
  \<open>ValueError: Red band cannot be None for this emissivity computation method\<close>. The
  object is left as the constructor made it: its emissivity array is still the array of
  zeros, so nothing was written for any class.
\<close>

theorem nbem_without_red_band:
  assumes d2: "length (shape nd) = 2"
  shows "\<exists>self. ComputeEmissivityNBEM_init nd None = Inr self \<and>
      emissivity self = zeros_like nd \<and>
      EmissivityParent_call (ComputeEmissivityNBEM_compute_emissivity fvc cav) self =
        (self, Inl (AssertionError (ValueError
           ''Red band cannot be None for this emissivity computation method''))) \<and>
      ComputeEmissivityNBEM_run fvc cav nd None =
        Inl (AssertionError (ValueError
           ''Red band cannot be None for this emissivity computation method''))"
proof -
  from nbem_init_fields [OF d2, of None] obtain self where
    init: "ComputeEmissivityNBEM_init nd None = Inr self" and
    rb: "red_band self = None" and em: "emissivity self = zeros_like nd"
    by blast
  have c: "EmissivityParent_call (ComputeEmissivityNBEM_compute_emissivity fvc cav) self =
        (self, Inl (AssertionError (ValueError
           ''Red band cannot be None for this emissivity computation method'')))"
    by (simp add: EmissivityParent_call_def ComputeEmissivityNBEM_compute_emissivity_def rb)
  have "ComputeEmissivityNBEM_run fvc cav nd None =
        Inl (AssertionError (ValueError
           ''Red band cannot be None for this emissivity computation method''))"
    by (simp add: ComputeEmissivityNBEM_run_def init c)
  with init em c show ?thesis by blast
qed

theorem nbem_without_red_band_witness:
  "ComputeEmissivityNBEM_run id id
     \<lparr>shape = [2, 2], data = [Fin (- 0.5), Fin 0.3, Fin 0.7, NaN]\<rparr> None =
   Inl (AssertionError (ValueError
           ''Red band cannot be None for this emissivity computation method''))"
proof -
  let ?nd = "\<lparr>shape = [2, 2], data = [Fin (- 0.5), Fin 0.3, Fin 0.7, NaN]\<rparr> :: fl ndarray"
  have h: "length (shape ?nd) = 2" by simp
  from nbem_without_red_band [OF h, of id id] show ?thesis by blast
qed

subsection \<open>C8: a red band of another shape, NBEM model\<close>

text \<open>
  C8. For a two-dimensional NDVI raster and a red band whose shape differs from the
  shape of NDVI, calling the NBEM model raises the AssertionError that carries
  \<open>ValueError: Input images (NDVI and Red band) must be of equal dimension\<close>. The
  object is left as the constructor made it, with its emissivity array of zeros: no
  emissivity was computed and nothing was broadcast.
\<close>

theorem nbem_shape_mismatch:
  assumes d2: "length (shape nd) = 2"
    and ne: "shape r \<noteq> shape nd"
  shows "\<exists>self. ComputeEmissivityNBEM_init nd (Some r) = Inr self \<and>
      emissivity self = zeros_like nd \<and>
      EmissivityParent_call (ComputeEmissivityNBEM_compute_emissivity fvc cav) self =
        (self, Inl (AssertionError (ValueError
           ''Input images (NDVI and Red band) must be of equal dimension''))) \<and>
      ComputeEmissivityNBEM_run fvc cav nd (Some r) =
        Inl (AssertionError (ValueError
           ''Input images (NDVI and Red band) must be of equal dimension''))"
proof -
  from nbem_init_fields [OF d2, of "Some r"] obtain self where
    init: "ComputeEmissivityNBEM_init nd (Some r) = Inr self" and
    nd: "ndvi self = nd" and
    rb: "red_band self = Some r" and em: "emissivity self = zeros_like nd"
    by blast
  from ne nd have ne': "shape r \<noteq> shape (ndvi self)" by simp
  note c = call_shape_mismatch [where compute = "ComputeEmissivityNBEM_compute_emissivity fvc cav",
      OF rb ne']
  have "ComputeEmissivityNBEM_run fvc cav nd (Some r) =
        Inl (AssertionError (ValueError
           ''Input images (NDVI and Red band) must be of equal dimension''))"
    by (simp add: ComputeEmissivityNBEM_run_def init c)
  with init em c show ?thesis by blast
qed

text \<open>The example of the specification: NDVI of shape 3 by 3, red band of shape 3 by 4.\<close>

theorem nbem_shape_mismatch_witness:
  "ComputeEmissivityNBEM_run id id
     \<lparr>shape = [3, 3], data = replicate 9 (Fin 0.3)\<rparr>
     (Some \<lparr>shape = [3, 4], data = replicate 12 (Fin 0.1)\<rparr>) =
   Inl (AssertionError (ValueError
           ''Input images (NDVI and Red band) must be of equal dimension''))"
proof -
  let ?nd = "\<lparr>shape = [3, 3], data = replicate 9 (Fin 0.3)\<rparr> :: fl ndarray"
  let ?r = "\<lparr>shape = [3, 4], data = replicate 12 (Fin 0.1)\<rparr> :: fl ndarray"
  have h1: "length (shape ?nd) = 2" by simp
  have h2: "shape ?r \<noteq> shape ?nd" by simp
  from nbem_shape_mismatch [OF h1 h2, of id id] show ?thesis by blast
qed

subsection \<open>C10: a red band of another shape, the models that do not read it\<close>

text \<open>
  C10. The check of the red band's shape is in \<^verbatim>\<open>EmissivityParent.__call__\<close>, which
  every model runs. So for a two-dimensional NDVI raster and a red band whose shape
  differs from the shape of NDVI, the mono-window model and the Gopinadh model raise
  the same AssertionError, although neither reads the red band.
\<close>

theorem shape_check_in_every_model:
  assumes d2: "length (shape nd) = 2"
    and ne: "shape r \<noteq> shape nd"
  shows "ComputeMonoWindowEmissivity_run nd (Some r) =
        Inl (AssertionError (ValueError
           ''Input images (NDVI and Red band) must be of equal dimension'')) \<and>
      ComputeEmissivityGopinadh_run fvc nd (Some r) =
        Inl (AssertionError (ValueError
           ''Input images (NDVI and Red band) must be of equal dimension''))"
proof -
  from mono_init_fields [OF d2, of "Some r"] obtain s1 where
    i1: "ComputeMonoWindowEmissivity_init nd (Some r) = Inr s1" and
    n1: "ndvi s1 = nd" and r1: "red_band s1 = Some r"
    by blast
  from gopinadh_init_fields [OF d2, of "Some r"] obtain s2 where
    i2: "ComputeEmissivityGopinadh_init nd (Some r) = Inr s2" and
    n2: "ndvi s2 = nd" and r2: "red_band s2 = Some r"
    by blast
  from ne n1 have ne1: "shape r \<noteq> shape (ndvi s1)" by simp
  from ne n2 have ne2: "shape r \<noteq> shape (ndvi s2)" by simp
  note c1 = call_shape_mismatch [where compute = ComputeMonoWindowEmissivity_compute_emissivity,
      OF r1 ne1]
  note c2 = call_shape_mismatch [where compute = "ComputeEmissivityGopinadh_compute_emissivity fvc",
      OF r2 ne2]
  show ?thesis
    by (simp add: ComputeMonoWindowEmissivity_run_def ComputeEmissivityGopinadh_run_def
        i1 i2 c1 c2)
qed

theorem shape_check_in_every_model_witness:
  "ComputeMonoWindowEmissivity_run
     \<lparr>shape = [3, 3], data = replicate 9 (Fin 0.3)\<rparr>
     (Some \<lparr>shape = [3, 4], data = replicate 12 (Fin 0.1)\<rparr>) =
   Inl (AssertionError (ValueError
           ''Input images (NDVI and Red band) must be of equal dimension'')) \<and>
   ComputeEmissivityGopinadh_run id
     \<lparr>shape = [3, 3], data = replicate 9 (Fin 0.3)\<rparr>
     (Some \<lparr>shape = [3, 4], data = replicate 12 (Fin 0.1)\<rparr>) =
   Inl (AssertionError (ValueError
           ''Input images (NDVI and Red band) must be of equal dimension''))"
proof -
  let ?nd = "\<lparr>shape = [3, 3], data = replicate 9 (Fin 0.3)\<rparr> :: fl ndarray"
  let ?r = "\<lparr>shape = [3, 4], data = replicate 12 (Fin 0.1)\<rparr> :: fl ndarray"
  have h1: "length (shape ?nd) = 2" by simp
  have h2: "shape ?r \<noteq> shape ?nd" by simp
  from shape_check_in_every_model [OF h1 h2, of id] show ?thesis .
qed

subsection \<open>C3: the blend of the Gopinadh model\<close>

text \<open>
  C3. For a two-dimensional NDVI raster, with no red band or with one of the same
  shape, the Gopinadh model returns a raster of the shape of NDVI in which every pixel
  whose NDVI is not NaN is \<open>0.9668 * (1 - FVC) + 0.9747 * FVC\<close>, with FVC the
  fractional vegetation cover of that pixel: in the arithmetic of the pixels for every
  value of FVC, and as the real number when FVC is finite. The formula is the same
  for every such pixel, whatever the class of its NDVI; the model never calls the
  classifier.
\<close>

theorem gopinadh_blend:
  assumes d2: "length (shape nd) = 2"
    and shp: "\<forall>r. rb = Some r \<longrightarrow> shape r = shape nd"
  shows "\<exists>out. ComputeEmissivityGopinadh_run fvc nd rb = Inr out \<and>
      shape out = shape nd \<and> length (data out) = length (data nd) \<and>
      (\<forall>k<length (data nd). \<not> isnan (data nd ! k) \<longrightarrow>
         data out ! k =
           fadd (fmul (Fin 0.9668) (fsub (Fin 1) (fvc (data nd ! k))))
             (fmul (Fin 0.9747) (fvc (data nd ! k))) \<and>
         (\<forall>f. fvc (data nd ! k) = Fin f \<longrightarrow>
            data out ! k = Fin (0.9668 * (1 - f) + 0.9747 * f)))"
proof -
  let ?out = "\<lparr>shape = shape nd, data = map (gopinadh_pixel fvc) (data nd)\<rparr>"
  have r: "ComputeEmissivityGopinadh_run fvc nd rb = Inr ?out"
    by (rule gopinadh_run_eq [OF d2 shp])
  have px: "data ?out ! k =
           fadd (fmul (Fin 0.9668) (fsub (Fin 1) (fvc (data nd ! k))))
             (fmul (Fin 0.9747) (fvc (data nd ! k))) \<and>
         (\<forall>f. fvc (data nd ! k) = Fin f \<longrightarrow>
            data ?out ! k = Fin (0.9668 * (1 - f) + 0.9747 * f))"
    if "k < length (data nd)" "\<not> isnan (data nd ! k)" for k
    using that by (simp add: gopinadh_pixel_def fsub_def)
  show ?thesis
    apply (rule exI [of _ ?out])
    apply (intro conjI allI impI r)
    apply simp
    apply simp
    using px apply blast
    using px apply blast
    done
qed

theorem gopinadh_blend_witness:
  "\<exists>out. ComputeEmissivityGopinadh_run id
            \<lparr>shape = [2, 2], data = [Fin (- 0.5), Fin 0.3, Fin 0.7, NaN]\<rparr> None = Inr out \<and>
         shape out = [2, 2] \<and>
         data out ! 1 = Fin (0.9668 * (1 - 0.3) + 0.9747 * 0.3)"
proof -
  let ?nd = "\<lparr>shape = [2, 2], data = [Fin (- 0.5), Fin 0.3, Fin 0.7, NaN]\<rparr> :: fl ndarray"
  have h1: "length (shape ?nd) = 2" by simp
  have h2: "\<forall>r. (None :: fl ndarray option) = Some r \<longrightarrow> shape r = shape ?nd" by simp
  from gopinadh_blend [OF h1 h2, of id] obtain out where
    r: "ComputeEmissivityGopinadh_run id ?nd None = Inr out" and s: "shape out = shape ?nd" and
    px: "\<forall>k<length (data ?nd). \<not> isnan (data ?nd ! k) \<longrightarrow>
         data out ! k =
           fadd (fmul (Fin 0.9668) (fsub (Fin 1) (id (data ?nd ! k))))
             (fmul (Fin 0.9747) (id (data ?nd ! k))) \<and>
         (\<forall>f. id (data ?nd ! k) = Fin f \<longrightarrow>
            data out ! k = Fin (0.9668 * (1 - f) + 0.9747 * f))"
    by (elim exE conjE) (rule that)
  have p: "1 < length (data ?nd)" "\<not> isnan (data ?nd ! 1)" by simp_all
  have q: "id (data ?nd ! 1) = Fin 0.3" by simp
  note px [rule_format, OF p, THEN conjunct2, rule_format, OF q]
  then have "data out ! 1 = Fin (0.9668 * (1 - 0.3) + 0.9747 * 0.3)" .
  with r s show ?thesis by simp
qed

subsection \<open>C9: pixels outside the NDVI range\<close>

text \<open>
  C9. Take a two-dimensional NDVI raster and a red band of the same shape, both
  well-formed, and a pixel whose NDVI is not NaN and is not a finite value in
  \<open>[-1, 1]\<close>. In an object made for that raster the pixel is in none of the three
  masks, and the mono-window model (with or without the red band) and the NBEM model
  both return \<open>0\<close>, the value of the zero-filled array, for it.
\<close>

theorem unclassified_pixels_zero:
  assumes d2: "length (shape nd) = 2"
    and wn: "wf_array nd"
    and wr: "wf_array r"
    and shp: "shape r = shape nd"
    and k: "k < length (data nd)"
    and nn: "\<not> isnan (data nd ! k)"
    and outside: "\<not> (\<exists>v. data nd ! k = Fin v \<and> - 1 \<le> v \<and> v \<le> 1)"
  shows "(\<forall>self :: emissivity_model. ndvi self = nd \<longrightarrow>
           \<not> data (get_land_surface_mask self Baresoil) ! k \<and>
           \<not> data (get_land_surface_mask self Vegetation) ! k \<and>
           \<not> data (get_land_surface_mask self Mixed) ! k) \<and>
         (\<exists>out. ComputeMonoWindowEmissivity_run nd None = Inr out \<and> data out ! k = Fin 0) \<and>
         (\<exists>out. ComputeMonoWindowEmissivity_run nd (Some r) = Inr out \<and> data out ! k = Fin 0) \<and>
         (\<exists>out. ComputeEmissivityNBEM_run fvc cav nd (Some r) = Inr out \<and> data out ! k = Fin 0)"
proof -
  have len: "length (data r) = length (data nd)"
    by (rule wf_same_length [OF wr wn shp])
  have cls: "\<not> (fge (data nd ! k) (Fin (- 1)) \<and> flt (data nd ! k) (Fin 0.2))"
    "\<not> (fgt (data nd ! k) (Fin 0.5) \<and> fle (data nd ! k) (Fin 1))"
    "\<not> (fge (data nd ! k) (Fin 0.2) \<and> fle (data nd ! k) (Fin 0.5))"
    using outside by (cases "data nd ! k"; auto simp add: fge_def fgt_def)+
  have a: "\<not> data (get_land_surface_mask self Baresoil) ! k \<and>
           \<not> data (get_land_surface_mask self Vegetation) ! k \<and>
           \<not> data (get_land_surface_mask self Mixed) ! k"
    if "ndvi self = nd" for self :: emissivity_model
    using k cls by (simp add: mask_baresoil mask_vegetation mask_mixed that)
  have m: "mono_pixel (data nd ! k) = Fin 0"
    by (simp only: mono_pixel_def nn cls if_False)
  have n: "nbem_pixel fvc cav (data nd ! k) (data r ! k) = Fin 0"
    by (simp only: nbem_pixel_def nn cls if_False)
  have b: "ComputeMonoWindowEmissivity_run nd None =
             Inr \<lparr>shape = shape nd, data = map mono_pixel (data nd)\<rparr>"
    by (rule mono_run_eq [OF d2]) simp
  have c: "ComputeMonoWindowEmissivity_run nd (Some r) =
             Inr \<lparr>shape = shape nd, data = map mono_pixel (data nd)\<rparr>"
    by (rule mono_run_eq [OF d2]) (simp add: shp)
  have d: "ComputeEmissivityNBEM_run fvc cav nd (Some r) =
             Inr \<lparr>shape = shape nd, data = map2 (nbem_pixel fvc cav) (data nd) (data r)\<rparr>"
    by (rule nbem_run_eq [OF d2 shp len])
  show ?thesis
    using a k len by (simp add: b c d m n)
qed

theorem unclassified_pixels_zero_witness:
  "(\<exists>out. ComputeMonoWindowEmissivity_run
            \<lparr>shape = [1, 2], data = [Fin 1.5, PInf]\<rparr> None = Inr out \<and> data out ! 0 = Fin 0) \<and>
   (\<exists>out. ComputeEmissivityNBEM_run id id
            \<lparr>shape = [1, 2], data = [Fin 1.5, PInf]\<rparr>
            (Some \<lparr>shape = [1, 2], data = [Fin 0.1, Fin 0.2]\<rparr>) = Inr out \<and> data out ! 0 = Fin 0)"
proof -
  let ?nd = "\<lparr>shape = [1, 2], data = [Fin 1.5, PInf]\<rparr> :: fl ndarray"
  let ?r = "\<lparr>shape = [1, 2], data = [Fin 0.1, Fin 0.2]\<rparr> :: fl ndarray"
  have h1: "length (shape ?nd) = 2" by simp
  have h2: "wf_array ?nd" by (simp add: wf_array_def)
  have h3: "wf_array ?r" by (simp add: wf_array_def)
  have h4: "shape ?r = shape ?nd" by simp
  have h5: "0 < length (data ?nd)" by simp
  have h6: "\<not> isnan (data ?nd ! 0)" by simp
  have h7: "\<not> (\<exists>v. data ?nd ! 0 = Fin v \<and> - 1 \<le> v \<and> v \<le> 1)" by simp
  from unclassified_pixels_zero [OF h1 h2 h3 h4 h5 h6 h7, of id id] show ?thesis by blast
qed

subsection \<open>C1: NaN in, NaN out\<close>

text \<open>
  C1, as stated, says that in every model an output pixel is NaN exactly when the NDVI
  pixel is NaN. The NBEM model breaks the "only when": a bare-soil pixel takes
  \<open>0.973 - 0.047 * red\<close>, so with NDVI \<open>0\<close> and a red value that is NaN the output is
  NaN although the NDVI pixel is not. (The pixel is bare soil, so the support functions
  are not read for it.)
\<close>

theorem nan_fidelity_counterexample:
  "ComputeEmissivityNBEM_run id id
     \<lparr>shape = [1, 1], data = [Fin 0]\<rparr> (Some \<lparr>shape = [1, 1], data = [NaN]\<rparr>) =
     Inr \<lparr>shape = [1, 1], data = [NaN]\<rparr> \<and>
   \<not> isnan (data \<lparr>shape = [1, 1], data = [Fin 0]\<rparr> ! 0)"
proof -
  let ?nd = "\<lparr>shape = [1, 1], data = [Fin 0]\<rparr> :: fl ndarray"
  let ?r = "\<lparr>shape = [1, 1], data = [NaN]\<rparr> :: fl ndarray"
  have "ComputeEmissivityNBEM_run id id ?nd (Some ?r) =
          Inr \<lparr>shape = shape ?nd, data = map2 (nbem_pixel id id) (data ?nd) (data ?r)\<rparr>"
    by (rule nbem_run_eq) simp_all
  then show ?thesis
    by (simp add: nbem_pixel_def fge_def fgt_def fsub_def)
qed

text \<open>
  What the NBEM model gives a pixel of each class, and when those values are NaN.
\<close>

lemma nbem_pixel_baresoil:
  "- 1 \<le> v \<Longrightarrow> v < 0.2 \<Longrightarrow>
   nbem_pixel fvc cav (Fin v) r = fsub (Fin 0.973) (fmul (Fin 0.047) r)"
  by (simp add: nbem_pixel_def fge_def fgt_def)

lemma nbem_pixel_mixed:
  "0.2 \<le> v \<Longrightarrow> v \<le> 0.5 \<Longrightarrow>
   nbem_pixel fvc cav (Fin v) r =
     fadd (fadd (fmul (Fin 0.9863) (fvc (Fin v)))
             (fmul (Fin 0.9668) (fsub (Fin 1) (fvc (Fin v)))))
       (cav (fvc (Fin v)))"
  by (simp add: nbem_pixel_def fge_def fgt_def)

lemma nbem_pixel_vegetation:
  "0.5 < v \<Longrightarrow> v \<le> 1 \<Longrightarrow>
   nbem_pixel fvc cav (Fin v) r = fadd (Fin 0.9863) (cav (fvc (Fin v)))"
  by (simp add: nbem_pixel_def fge_def fgt_def)

lemma nbem_pixel_outside:
  "\<not> isnan x \<Longrightarrow> \<not> (\<exists>v. x = Fin v \<and> - 1 \<le> v \<and> v \<le> 1) \<Longrightarrow>
   nbem_pixel fvc cav x r = Fin 0"
  by (cases x) (auto simp add: nbem_pixel_def fge_def fgt_def)

lemma isnan_soil_value:
  "b \<noteq> 0 \<Longrightarrow> isnan (fsub (Fin a) (fmul (Fin b) r)) = isnan r"
  by (cases r) (simp_all add: fsub_def)

lemma isnan_mixed_value:
  "0 < a \<Longrightarrow> 0 < b \<Longrightarrow>
   isnan (fadd (fadd (fmul (Fin a) F) (fmul (Fin b) (fsub (Fin 1) F))) C) =
     (\<not> isfinite F \<or> isnan C)"
  by (cases F; cases C) (simp_all add: fsub_def)

lemma isnan_blend_value:
  "0 < a \<Longrightarrow> 0 < b \<Longrightarrow>
   isnan (fadd (fmul (Fin a) (fsub (Fin 1) F)) (fmul (Fin b) F)) = (\<not> isfinite F)"
  by (cases F) (simp_all add: fsub_def)

lemma isnan_gopinadh_pixel_exact:
  "\<not> isnan x \<Longrightarrow> isnan (gopinadh_pixel fvc x) = (\<not> isfinite (fvc x))"
  by (simp add: gopinadh_pixel_def isnan_blend_value)

text \<open>
  C1, amended. For every model and every well-formed two-dimensional NDVI raster, with
  a well-formed red band of the same shape or none (the NBEM model needs one), the call
  returns a raster of the shape of NDVI in which every pixel whose NDVI is NaN is NaN.
  A pixel whose NDVI is not NaN is NaN in the output in exactly these cases: in the
  Gopinadh model, when the fractional vegetation cover of the pixel is not finite; in
  the NBEM model, for a bare-soil pixel when its red value is NaN, for a mixed pixel
  when its fractional vegetation cover is not finite or its cavity effect is NaN, and
  for a vegetation pixel when its cavity effect is NaN. It is never NaN in the
  mono-window model, nor for an NBEM pixel outside the three classes; the red band
  matters for bare-soil pixels only.
\<close>

theorem nan_mask_fidelity:
  assumes d2: "length (shape nd) = 2"
    and wn: "wf_array nd"
    and rbs: "\<forall>r. rb = Some r \<longrightarrow> shape r = shape nd \<and> wf_array r"
    and need: "c = ComputeEmissivityNBEM \<longrightarrow> rb \<noteq> None"
  shows "\<exists>out. construct_and_call fvc cav c nd rb = Inr out \<and>
      shape out = shape nd \<and> length (data out) = length (data nd) \<and>
      (\<forall>k<length (data nd).
         (isnan (data nd ! k) \<longrightarrow> isnan (data out ! k)) \<and>
         (\<not> isnan (data nd ! k) \<longrightarrow>
            (c = ComputeMonoWindowEmissivity \<longrightarrow> \<not> isnan (data out ! k)) \<and>
            (c = ComputeEmissivityGopinadh \<longrightarrow>
               isnan (data out ! k) = (\<not> isfinite (fvc (data nd ! k)))) \<and>
            (c = ComputeEmissivityNBEM \<longrightarrow>
               (\<forall>r v. rb = Some r \<and> data nd ! k = Fin v \<longrightarrow>
                  (- 1 \<le> v \<and> v < 0.2 \<longrightarrow> isnan (data out ! k) = isnan (data r ! k)) \<and>
                  (0.2 \<le> v \<and> v \<le> 0.5 \<longrightarrow>
                     isnan (data out ! k) =
                       (\<not> isfinite (fvc (data nd ! k)) \<or> isnan (cav (fvc (data nd ! k))))) \<and>
                  (0.5 < v \<and> v \<le> 1 \<longrightarrow>
                     isnan (data out ! k) = isnan (cav (fvc (data nd ! k))))) \<and>
               (\<not> (\<exists>v. data nd ! k = Fin v \<and> - 1 \<le> v \<and> v \<le> 1) \<longrightarrow>
                  \<not> isnan (data out ! k)))))"
    (is "\<exists>out. _ \<and> _ \<and> _ \<and> (\<forall>k<_. ?P out k)")
proof -
  have shp: "\<forall>r. rb = Some r \<longrightarrow> shape r = shape nd"
    using rbs by blast
  show ?thesis
  proof (cases c)
    case ComputeMonoWindowEmissivity
    let ?out = "\<lparr>shape = shape nd, data = map mono_pixel (data nd)\<rparr>"
    have r: "construct_and_call fvc cav c nd rb = Inr ?out"
      by (simp add: construct_and_call_def ComputeMonoWindowEmissivity mono_run_eq [OF d2 shp])
    have px: "isnan (data ?out ! k) = isnan (data nd ! k)" if "k < length (data nd)" for k
      using that by (simp add: isnan_mono_pixel)
    have body: "?P ?out k" if k: "k < length (data nd)" for k
      unfolding px [OF k] ComputeMonoWindowEmissivity by simp
    have all: "\<forall>k<length (data nd). ?P ?out k"
      by (intro allI impI) (rule body)
    show ?thesis
      apply (rule exI [of _ ?out])
      apply (intro conjI)
      apply (rule r)
      apply simp
      apply simp
      apply (rule all)
      done
  next
    case ComputeEmissivityGopinadh
    let ?out = "\<lparr>shape = shape nd, data = map (gopinadh_pixel fvc) (data nd)\<rparr>"
    have r: "construct_and_call fvc cav c nd rb = Inr ?out"
      by (simp add: construct_and_call_def ComputeEmissivityGopinadh gopinadh_run_eq [OF d2 shp])
    have px: "data ?out ! k = gopinadh_pixel fvc (data nd ! k)" if "k < length (data nd)" for k
      using that by simp
    have body: "?P ?out k" if k: "k < length (data nd)" for k
      unfolding px [OF k] ComputeEmissivityGopinadh
      by (simp add: isnan_gopinadh_pixel_nan isnan_gopinadh_pixel_exact)
    have all: "\<forall>k<length (data nd). ?P ?out k"
      by (intro allI impI) (rule body)
    show ?thesis
      apply (rule exI [of _ ?out])
      apply (intro conjI)
      apply (rule r)
      apply simp
      apply simp
      apply (rule all)
      done
  next
    case ComputeEmissivityNBEM
    with need obtain r where rb: "rb = Some r" by blast
    with rbs have sr: "shape r = shape nd" and wr: "wf_array r" by blast+
    have len: "length (data r) = length (data nd)"
      by (rule wf_same_length [OF wr wn sr])
    let ?out = "\<lparr>shape = shape nd, data = map2 (nbem_pixel fvc cav) (data nd) (data r)\<rparr>"
    have r: "construct_and_call fvc cav c nd rb = Inr ?out"
      by (simp add: construct_and_call_def ComputeEmissivityNBEM rb nbem_run_eq [OF d2 sr len])
    have px: "data ?out ! k = nbem_pixel fvc cav (data nd ! k) (data r ! k)"
      if "k < length (data nd)" for k
      using that len by simp
    have body: "?P ?out k" if k: "k < length (data nd)" for k
      unfolding px [OF k] ComputeEmissivityNBEM rb
      by (auto simp add: isnan_nbem_pixel_nan nbem_pixel_baresoil nbem_pixel_mixed
          nbem_pixel_vegetation nbem_pixel_outside isnan_soil_value isnan_mixed_value)
    have all: "\<forall>k<length (data nd). ?P ?out k"
      by (intro allI impI) (rule body)
    show ?thesis
      apply (rule exI [of _ ?out])
      apply (intro conjI)
      apply (rule r)
      apply simp
      using len apply simp
      apply (rule all)
      done
  qed
qed

text \<open>
  The scenario of the specification in the NBEM model, with the red value of the
  vegetation pixel made NaN: the fourth pixel, whose NDVI is NaN, is NaN; the third,
  vegetation with a red value that is NaN, is not; the first, bare soil with a finite
  red value, is not.
\<close>

theorem nan_mask_fidelity_witness:
  "\<exists>out. construct_and_call id id ComputeEmissivityNBEM
            \<lparr>shape = [2, 2], data = [Fin (- 0.5), Fin 0.3, Fin 0.7, NaN]\<rparr>
            (Some \<lparr>shape = [2, 2], data = [Fin 0.2, Fin 0.25, NaN, Fin 0.3]\<rparr>) = Inr out \<and>
         isnan (data out ! 3) \<and> \<not> isnan (data out ! 2) \<and> \<not> isnan (data out ! 0)"
proof -
  let ?nd = "\<lparr>shape = [2, 2], data = [Fin (- 0.5), Fin 0.3, Fin 0.7, NaN]\<rparr> :: fl ndarray"
  let ?r = "\<lparr>shape = [2, 2], data = [Fin 0.2, Fin 0.25, NaN, Fin 0.3]\<rparr> :: fl ndarray"
  have h1: "length (shape ?nd) = 2" by simp
  have h2: "wf_array ?nd" by (simp add: wf_array_def)
  have h3: "\<forall>r. Some ?r = Some r \<longrightarrow> shape r = shape ?nd \<and> wf_array r"
    by (auto simp add: wf_array_def)
  have h4: "ComputeEmissivityNBEM = ComputeEmissivityNBEM \<longrightarrow> Some ?r \<noteq> None" by simp
  from nan_mask_fidelity [OF h1 h2 h3 h4, of id id] obtain out where
    r: "construct_and_call id id ComputeEmissivityNBEM ?nd (Some ?r) = Inr out" and
    px: "\<forall>k<length (data ?nd).
         (isnan (data ?nd ! k) \<longrightarrow> isnan (data out ! k)) \<and>
         (\<not> isnan (data ?nd ! k) \<longrightarrow>
            (ComputeEmissivityNBEM = ComputeMonoWindowEmissivity \<longrightarrow> \<not> isnan (data out ! k)) \<and>
            (ComputeEmissivityNBEM = ComputeEmissivityGopinadh \<longrightarrow>
               isnan (data out ! k) = (\<not> isfinite (id (data ?nd ! k)))) \<and>
            (ComputeEmissivityNBEM = ComputeEmissivityNBEM \<longrightarrow>
               (\<forall>r v. Some ?r = Some r \<and> data ?nd ! k = Fin v \<longrightarrow>
                  (- 1 \<le> v \<and> v < 0.2 \<longrightarrow> isnan (data out ! k) = isnan (data r ! k)) \<and>
                  (0.2 \<le> v \<and> v \<le> 0.5 \<longrightarrow>
                     isnan (data out ! k) =
                       (\<not> isfinite (id (data ?nd ! k)) \<or> isnan (id (id (data ?nd ! k))))) \<and>
                  (0.5 < v \<and> v \<le> 1 \<longrightarrow>
                     isnan (data out ! k) = isnan (id (id (data ?nd ! k))))) \<and>
               (\<not> (\<exists>v. data ?nd ! k = Fin v \<and> - 1 \<le> v \<and> v \<le> 1) \<longrightarrow>
                  \<not> isnan (data out ! k))))"
    by (elim exE conjE) (rule that)
  have k3: "3 < length (data ?nd)" and k2: "2 < length (data ?nd)"
    and k0: "0 < length (data ?nd)" by simp_all
  from px [rule_format, OF k3] have a: "isnan (data out ! 3)" by simp
  have n2: "\<not> isnan (data ?nd ! 2)" and n0: "\<not> isnan (data ?nd ! 0)" by simp_all
  have e2: "Some ?r = Some ?r \<and> data ?nd ! 2 = Fin 0.7"
    and e0: "Some ?r = Some ?r \<and> data ?nd ! 0 = Fin (- 0.5)" by simp_all
  note p2 = px [rule_format, OF k2, THEN conjunct2, rule_format, OF n2,
      THEN conjunct2, THEN conjunct2, rule_format, OF refl, THEN conjunct1, rule_format, OF e2]
  note p0 = px [rule_format, OF k0, THEN conjunct2, rule_format, OF n0,
      THEN conjunct2, THEN conjunct2, rule_format, OF refl, THEN conjunct1, rule_format, OF e0]
  from p2 have b: "\<not> isnan (data out ! 2)" by simp
  from p0 have c: "\<not> isnan (data out ! 0)" by simp
  from r a b c show ?thesis by blast
qed

end
